theory Spec2Isabelle
  imports Complex_Main "HOL-Library.Char_ord" "HOL-Library.List_Lexorder"
begin

section \<open>TummyTracker: the food-symptom prediction engine (ml\_engine.py)\<close>

text \<open>
  A shallow embedding of the class \<open>TummyTrackerML\<close>. The engine object is a record that
  every method takes and returns; the model directory is a second record (the four
  artifact files); an exception that leaves a method is the \<open>Inl\<close> branch of the
  method's result. A nullable column is an \<open>option\<close>. The free texts that the code
  lower-cases (ingredients, allergens) are lists of Unicode code points; the category tags
  and notes, which it only compares, sorts or tests for emptiness, are \<open>string\<close>.
  A float64 value is the \<open>real\<close> number it stands for, and the float64 operations of
  NumPy round as IEEE 754 does.
\<close>

subsection \<open>Python strings\<close>

type_synonym unicode = "nat list"

definition codepoints :: "string \<Rightarrow> unicode" where
  \<comment> \<open>the code points of an ASCII literal\<close>
  "codepoints s = map of_char s"

text \<open>
  \<open>str.lower\<close> replaces every code point by its lower-case mapping, which can be more
  than one code point. ASCII capitals move to their small letters and other ASCII stays;
  U+212A KELVIN SIGN becomes \<open>k\<close>; U+0130 LATIN CAPITAL LETTER I WITH DOT ABOVE becomes
  \<open>i\<close> followed by U+0307 COMBINING DOT ABOVE. The mapping of every other code point is
  taken from the Unicode database of the interpreter, which is a parameter here: it is
  given the text and the position, since the mapping of GREEK CAPITAL LETTER SIGMA depends
  on its neighbours.
\<close>

type_synonym lower_table = "unicode \<Rightarrow> nat \<Rightarrow> unicode"

definition lower_at :: "lower_table \<Rightarrow> unicode \<Rightarrow> nat \<Rightarrow> unicode" where
  "lower_at ucd s i =
     (let c = s ! i in
      if 65 \<le> c \<and> c \<le> 90 then [c + 32]
      else if c < 128 then [c]
      else if c = 8490 then [107]
      else if c = 304 then [105, 775]
      else ucd s i)"

definition lower :: "lower_table \<Rightarrow> unicode \<Rightarrow> unicode" where
  "lower ucd s = concat (map (lower_at ucd s) [0..<length s])"

fun startswith :: "'a list \<Rightarrow> 'a list \<Rightarrow> bool" where
  "startswith s [] = True"
| "startswith [] (w # ws) = False"
| "startswith (c # cs) (w # ws) = (c = w \<and> startswith cs ws)"

fun contains :: "'a list \<Rightarrow> 'a list \<Rightarrow> bool" where
  \<comment> \<open>\<open>contains s w\<close> is Python's \<open>w in s\<close> on strings: \<open>w\<close> occurs in \<open>s\<close> as a substring.\<close>
  "contains [] w = (w = [])"
| "contains (c # cs) w = (startswith (c # cs) w \<or> contains cs w)"

definition any_in :: "unicode list \<Rightarrow> unicode \<Rightarrow> bool" where
  \<comment> \<open>\<open>any(word in s for word in words)\<close>\<close>
  "any_in words s = list_ex (contains s) words"

definition truthy :: "'a list option \<Rightarrow> bool" where
  \<comment> \<open>the truth value of a nullable text column: \<open>None\<close> and \<open>''\<close> are false\<close>
  "truthy t = (case t of None \<Rightarrow> False | Some s \<Rightarrow> s \<noteq> [])"

definition text_of :: "'a list option \<Rightarrow> 'a list" where
  \<comment> \<open>the text of a column that is known to be set\<close>
  "text_of t = (case t of None \<Rightarrow> [] | Some s \<Rightarrow> s)"

definition str :: "string option \<Rightarrow> string" where
  \<comment> \<open>\<open>astype(str)\<close> on a nullable text value: \<open>None\<close> becomes the text \<open>None\<close>\<close>
  "str t = (case t of None \<Rightarrow> ''None'' | Some s \<Rightarrow> s)"

subsection \<open>The records of models.py\<close>

text \<open>
  A \<open>datetime\<close> is the number of seconds since 1970-01-01 00:00 (a Thursday, weekday 3).
\<close>

type_synonym datetime = int

definition hour :: "datetime \<Rightarrow> nat" where
  "hour t = nat ((t mod 86400) div 3600)"

definition weekday :: "datetime \<Rightarrow> nat" where
  "weekday t = nat ((t div 86400 + 3) mod 7)"

definition days_since :: "datetime \<Rightarrow> int" where
  \<comment> \<open>\<open>(t - datetime(1970, 1, 1)).days\<close>\<close>
  "days_since t = t div 86400"

record food =
  category :: "string option"
  ingredients :: "unicode option"
  allergens :: "unicode option"

record meal =
  meal_ident :: nat
  food :: food
  meal_time :: datetime
  quantity :: "real option"
  meal_notes :: "string option"

record symptom =
  meal_id :: nat

subsection \<open>Feature rows\<close>

text \<open>
  One row of the data frame: the dictionary \<open>meal_features\<close> with its fixed keys. The
  column \<open>food_category\<close> holds the category text before encoding and its integer code
  after, so the record is polymorphic in that column.
\<close>

record 'c feature_row =
  food_category :: 'c
  meal_hour :: nat
  meal_day_of_week :: nat
  has_quantity :: nat
  quantity_feature :: real
  has_notes :: nat
  has_ingredients :: nat
  has_dairy :: nat
  has_gluten :: nat
  has_spicy :: nat
  has_allergens :: nat
  allergen_count :: nat
  days_since_epoch :: int

definition dairy_words :: "unicode list" where
  "dairy_words = map codepoints [''milk'', ''cheese'', ''yogurt'', ''butter'', ''cream'']"

definition gluten_words :: "unicode list" where
  "gluten_words = map codepoints [''wheat'', ''flour'', ''bread'', ''pasta'']"

definition spicy_words :: "unicode list" where
  "spicy_words = map codepoints [''pepper'', ''chili'', ''hot'', ''spicy'']"

definition allergen_words :: "unicode list" where
  "allergen_words = map codepoints [''dairy'', ''nuts'', ''gluten'', ''soy'', ''fish'']"

definition flag :: "bool \<Rightarrow> nat" where
  \<comment> \<open>\<open>1 if b else 0\<close>\<close>
  "flag b = (if b then 1 else 0)"

definition quantity_given :: "real option \<Rightarrow> bool" where
  \<comment> \<open>the truth value of \<open>meal.quantity\<close>: \<open>None\<close> and \<open>0.0\<close> are false\<close>
  "quantity_given q = (case q of None \<Rightarrow> False | Some v \<Rightarrow> v \<noteq> 0)"

definition meal_features :: "lower_table \<Rightarrow> meal \<Rightarrow> string option feature_row" where
  \<comment> \<open>the body of the loop of \<open>prepare_features\<close>, without the target column\<close>
  "meal_features ucd m =
     (let ing = ingredients (food m); alg = allergens (food m) in
      \<lparr> food_category = category (food m),
        meal_hour = hour (meal_time m),
        meal_day_of_week = weekday (meal_time m),
        has_quantity = flag (quantity_given (quantity m)),
        quantity_feature =
          (case quantity m of None \<Rightarrow> 0 | Some v \<Rightarrow> if v \<noteq> 0 then v else 0),
        has_notes = flag (truthy (meal_notes m)),
        has_ingredients = flag (truthy ing),
        has_dairy =
          (if truthy ing then flag (any_in dairy_words (lower ucd (text_of ing))) else 0),
        has_gluten =
          (if truthy ing then flag (any_in gluten_words (lower ucd (text_of ing))) else 0),
        has_spicy =
          (if truthy ing then flag (any_in spicy_words (lower ucd (text_of ing))) else 0),
        has_allergens = flag (truthy alg),
        allergen_count =
          (if truthy alg
           then length (filter (contains (lower ucd (text_of alg))) allergen_words) else 0),
        days_since_epoch = days_since (meal_time m) \<rparr>)"

definition caused_symptoms :: "symptom list \<Rightarrow> meal \<Rightarrow> nat" where
  \<comment> \<open>\<open>1 if meal.id in meal_symptoms else 0\<close>: some symptom refers to the meal\<close>
  "caused_symptoms symptoms_data m = flag (meal_ident m \<in> set (map meal_id symptoms_data))"

subsection \<open>Exceptions\<close>

datatype py_error =
    ValueError string
  | KeyError string
  | NotFittedError
  | UnpicklingError

definition unseen_labels :: py_error where
  \<comment> \<open>what \<open>LabelEncoder.transform\<close> raises on a label that is not among its classes\<close>
  "unseen_labels = ValueError ''y contains previously unseen labels''"

subsection \<open>LabelEncoder\<close>

text \<open>
  scikit-learn's \<open>LabelEncoder\<close>: \<open>fit\<close> stores the distinct labels in sorted order in
  \<open>classes_\<close> (it takes \<open>numpy.unique\<close> of the column, and strings compare by code point
  as \<open>string\<close> does here); \<open>transform\<close> gives the position of a label in \<open>classes_\<close> and
  raises a \<open>ValueError\<close> for a label that is not there.
\<close>

datatype label_encoder = LabelEncoder (classes: "string list")

definition le_fit :: "string list \<Rightarrow> label_encoder" where
  "le_fit ys = LabelEncoder (sort (remdups ys))"

fun index_of :: "string \<Rightarrow> string list \<Rightarrow> nat option" where
  "index_of v [] = None"
| "index_of v (c # cs) = (if v = c then Some 0 else map_option Suc (index_of v cs))"

definition le_transform :: "label_encoder \<Rightarrow> string \<Rightarrow> py_error + nat" where
  "le_transform le v =
     (case index_of v (classes le) of None \<Rightarrow> Inl unseen_labels | Some k \<Rightarrow> Inr k)"

fun le_transform_column :: "label_encoder \<Rightarrow> string list \<Rightarrow> py_error + nat list" where
  "le_transform_column le [] = Inr []"
| "le_transform_column le (v # vs) =
     (case le_transform le v of
        Inl err \<Rightarrow> Inl err
      | Inr k \<Rightarrow> (case le_transform_column le vs of Inl err \<Rightarrow> Inl err | Inr ks \<Rightarrow> Inr (k # ks)))"

definition le_fit_transform :: "string list \<Rightarrow> label_encoder \<times> (py_error + nat list)" where
  "le_fit_transform ys = (let le = le_fit ys in (le, le_transform_column le ys))"

subsection \<open>float64 arithmetic\<close>

text \<open>
  IEEE 754 binary64 in its finite range: a sum, difference or quotient is the exact
  result rounded to the nearest number with a 53-bit significand (below 2 to the power
  -1022: to the nearest multiple of 2 to the power -1074), a tie going to the even
  significand. Infinities and NaN are outside the model: it follows the code as long as
  no result overflows and no divisor is zero, as with the probabilities, flags, hours,
  quantities and day counts that the engine computes with and the scales that a fit
  stores.
\<close>

definition round_half_even :: "real \<Rightarrow> int" where
  "round_half_even q =
     (let f = \<lfloor>q\<rfloor>; r = q - of_int f in
      if r < 1 / 2 then f else if 1 / 2 < r then f + 1 else if even f then f else f + 1)"

definition exponent :: "real \<Rightarrow> int" where
  \<comment> \<open>the integer \<open>e\<close> with \<open>2 powi e \<le> \<bar>x\<bar> < 2 powi (e + 1)\<close>\<close>
  "exponent x = \<lfloor>log 2 \<bar>x\<bar>\<rfloor>"

definition ulp :: "real \<Rightarrow> real" where
  \<comment> \<open>the distance between neighbouring float64 values at the size of \<open>x\<close>\<close>
  "ulp x = 2 powi (max (exponent x - 52) (- 1074))"

definition round64 :: "real \<Rightarrow> real" where
  "round64 x = (if x = 0 then 0 else of_int (round_half_even (x / ulp x)) * ulp x)"

definition fadd :: "real \<Rightarrow> real \<Rightarrow> real" where
  "fadd a b = round64 (a + b)"

definition fsub :: "real \<Rightarrow> real \<Rightarrow> real" where
  "fsub a b = round64 (a - b)"

definition fdiv :: "real \<Rightarrow> real \<Rightarrow> real" where
  "fdiv a b = round64 (a / b)"

subsection \<open>The algorithms of scikit-learn\<close>

text \<open>
  A fitted classifier is what \<open>predict_proba\<close> computes for one scaled row: the pair of
  the probabilities of class 0 and class 1 (both classifiers are fitted on the 0/1 target
  \<open>caused_symptoms\<close>).

  What scikit-learn computes from the training data is a parameter of the model: the
  seeded \<open>train_test_split\<close>, the two \<open>fit\<close> methods (which may raise), \<open>accuracy_score\<close>
  of a fitted classifier on the held-out rows, and the statistics that
  \<open>StandardScaler.fit\<close> takes from one column in float64: its \<open>mean_\<close>, its \<open>var_\<close>, and
  the \<open>scale_\<close> of a column whose \<open>var_\<close> is not zero (the float64 square root of
  \<open>var_\<close>, or 1 where scikit-learn finds the column constant up to rounding).
\<close>

type_synonym classifier = "real list \<Rightarrow> real \<times> real"

record sklearn =
  train_test_split ::
    "real list list \<Rightarrow> nat list \<Rightarrow> real list list \<times> real list list \<times> nat list \<times> nat list"
  fit_random_forest :: "real list list \<Rightarrow> nat list \<Rightarrow> py_error + classifier"
  fit_logistic_regression :: "real list list \<Rightarrow> nat list \<Rightarrow> py_error + classifier"
  accuracy_score :: "classifier \<Rightarrow> real list list \<Rightarrow> nat list \<Rightarrow> real"
  fitted_mean :: "real list \<Rightarrow> real"
  fitted_var :: "real list \<Rightarrow> real"
  fitted_scale :: "real list \<Rightarrow> real"

subsection \<open>StandardScaler\<close>

text \<open>
  scikit-learn's \<open>StandardScaler\<close> with its defaults: \<open>fit\<close> stores, for every column, the
  mean in \<open>mean_\<close> and the scale in \<open>scale_\<close>, where a column of variance zero gets the
  scale 1; \<open>transform\<close> computes \<open>(x - mean_) / scale_\<close> column by column, in float64.
  A scaler that was never fitted raises \<open>NotFittedError\<close>.
\<close>

datatype standard_scaler = Unfitted | Fitted (means: "real list") (scales: "real list")

definition column_scale :: "sklearn \<Rightarrow> real list \<Rightarrow> real" where
  \<comment> \<open>\<open>scale_\<close> of one column: a column of variance zero is left unscaled\<close>
  "column_scale sk col = (if fitted_var sk col = 0 then 1 else fitted_scale sk col)"

definition scaler_fit :: "sklearn \<Rightarrow> real list list \<Rightarrow> py_error + standard_scaler" where
  "scaler_fit sk X =
     (if X = [] then Inl (ValueError ''Found array with 0 sample(s)'')
      else Inr (Fitted (map (fitted_mean sk) (transpose X))
                       (map (column_scale sk) (transpose X))))"

definition standardize :: "real list \<Rightarrow> real list \<Rightarrow> real list \<Rightarrow> real list" where
  "standardize ms ss x = map (\<lambda>(xi, m, sd). fdiv (fsub xi m) sd) (zip x (zip ms ss))"

definition scaler_transform :: "standard_scaler \<Rightarrow> real list \<Rightarrow> py_error + real list" where
  "scaler_transform s x =
     (case s of
        Unfitted \<Rightarrow> Inl NotFittedError
      | Fitted ms ss \<Rightarrow>
          if length x \<noteq> length ms
          then Inl (ValueError ''X has a different number of features'')
          else Inr (standardize ms ss x))"

fun scaler_transform_rows ::
  "standard_scaler \<Rightarrow> real list list \<Rightarrow> py_error + real list list" where
  "scaler_transform_rows s [] = Inr []"
| "scaler_transform_rows s (x # xs) =
     (case scaler_transform s x of
        Inl err \<Rightarrow> Inl err
      | Inr z \<Rightarrow>
          (case scaler_transform_rows s xs of Inl err \<Rightarrow> Inl err | Inr zs \<Rightarrow> Inr (z # zs)))"

subsection \<open>The engine and the model directory\<close>

text \<open>
  The dictionary \<open>models\<close> is a map on the two names the code uses; the dictionary
  \<open>label_encoders\<close> only ever gets the key \<open>food_category\<close> (the one entry of
  \<open>categorical_cols\<close>), so it is the optional encoder of that column.
\<close>

datatype model_name = random_forest | logistic_regression

record model_info =
  model :: classifier
  accuracy :: "real option"
  model_type :: string

record engine =
  models :: "model_name \<rightharpoonup> model_info"
  label_encoders :: "label_encoder option"
  scaler :: standard_scaler
  is_trained :: bool

definition new_engine :: engine where
  \<comment> \<open>\<open>__init__\<close>\<close>
  "new_engine = \<lparr> models = Map.empty, label_encoders = None, scaler = Unfitted,
                  is_trained = False \<rparr>"

text \<open>
  The files under \<open>model_path\<close>: \<open>random_forest.pkl\<close>, \<open>logistic_regression.pkl\<close>,
  \<open>scaler.pkl\<close> and \<open>encoders.pkl\<close>. A file is absent (\<open>None\<close>), holds a pickled object,
  or cannot be read back (\<open>joblib.load\<close> raises).
\<close>

datatype 'a pkl = Unreadable | Pickled 'a

record model_dir =
  model_files :: "model_name \<rightharpoonup> classifier pkl"
  scaler_file :: "standard_scaler pkl option"
  encoders_file :: "label_encoder option pkl option"

definition empty_dir :: model_dir where
  "empty_dir = \<lparr> model_files = Map.empty, scaler_file = None, encoders_file = None \<rparr>"

subsection \<open>prepare\_features\<close>

definition with_category :: "'a feature_row \<Rightarrow> 'b \<Rightarrow> 'b feature_row" where
  \<comment> \<open>\<open>df['food_category'] = ...\<close> on one row: the other columns stay\<close>
  "with_category r c =
     \<lparr> food_category = c, meal_hour = meal_hour r, meal_day_of_week = meal_day_of_week r,
       has_quantity = has_quantity r, quantity_feature = quantity_feature r,
       has_notes = has_notes r, has_ingredients = has_ingredients r,
       has_dairy = has_dairy r, has_gluten = has_gluten r, has_spicy = has_spicy r,
       has_allergens = has_allergens r, allergen_count = allergen_count r,
       days_since_epoch = days_since_epoch r \<rparr>"

text \<open>
  \<open>prepare_features\<close> returns \<open>(None, None)\<close> for an empty meal list and leaves the engine
  alone. Otherwise it builds one row per meal, fits a fresh \<open>LabelEncoder\<close> on the category
  column, stores it in \<open>self.label_encoders\<close>, and returns the encoded rows with the
  targets.
\<close>

definition prepare_features ::
  "lower_table \<Rightarrow> engine \<Rightarrow> meal list \<Rightarrow> symptom list
     \<Rightarrow> py_error + engine \<times> (nat feature_row list \<times> nat list) option" where
  "prepare_features ucd e meals_data symptoms_data =
     (if meals_data = [] then Inr (e, None)
      else
        let features = map (meal_features ucd) meals_data;
            targets = map (caused_symptoms symptoms_data) meals_data;
            (le, codes) = le_fit_transform (map (str \<circ> food_category) features)
        in case codes of
             Inl err \<Rightarrow> Inl err
           | Inr ks \<Rightarrow>
               Inr (e\<lparr>label_encoders := Some le\<rparr>,
                    Some (map (\<lambda>(r, k). with_category r k) (zip features ks), targets)))"

subsection \<open>save\_models and load\_models\<close>

definition save_models :: "engine \<Rightarrow> model_dir \<Rightarrow> model_dir" where
  "save_models e d =
     (if \<not> is_trained e then d
      else d\<lparr> model_files :=
                 (\<lambda>name. case models e name of
                            None \<Rightarrow> model_files d name
                          | Some info \<Rightarrow> Some (Pickled (model info))),
               scaler_file := Some (Pickled (scaler e)),
               encoders_file := Some (Pickled (label_encoders e)) \<rparr>)"

definition title :: "model_name \<Rightarrow> string" where
  \<comment> \<open>\<open>name.replace('_', ' ').title()\<close>\<close>
  "title name =
     (case name of random_forest \<Rightarrow> ''Random Forest''
                 | logistic_regression \<Rightarrow> ''Logistic Regression'')"

definition load_classifier :: "model_name \<Rightarrow> model_dir \<Rightarrow> engine \<Rightarrow> py_error + engine" where
  \<comment> \<open>one round of the loop of \<open>load_models\<close>\<close>
  "load_classifier name d e =
     (case model_files d name of
        None \<Rightarrow> Inr e
      | Some Unreadable \<Rightarrow> Inl UnpicklingError
      | Some (Pickled m) \<Rightarrow>
          Inr (e\<lparr>models := (models e)(name \<mapsto>
                 \<lparr> model = m, accuracy = None, model_type = title name \<rparr>)\<rparr>))"

text \<open>
  \<open>load_models\<close> catches every exception of its body and then returns \<open>False\<close>; what the
  body had assigned before the exception stays assigned.
\<close>

definition load_models :: "engine \<Rightarrow> model_dir \<Rightarrow> bool \<times> engine" where
  "load_models e d =
     (case load_classifier random_forest d e of
        Inl err \<Rightarrow> (False, e)
      | Inr e1 \<Rightarrow>
     (case load_classifier logistic_regression d e1 of
        Inl err \<Rightarrow> (False, e1)
      | Inr e2 \<Rightarrow>
     (case (scaler_file d, encoders_file d) of
        (Some sf, Some ef) \<Rightarrow>
          (case sf of
             Unreadable \<Rightarrow> (False, e2)
           | Pickled s \<Rightarrow>
               (case ef of
                  Unreadable \<Rightarrow> (False, e2\<lparr>scaler := s\<rparr>)
                | Pickled les \<Rightarrow>
                    (True, e2\<lparr>scaler := s, label_encoders := les, is_trained := True\<rparr>)))
      | _ \<Rightarrow> (False, e2))))"

subsection \<open>train\_models\<close>

definition row_values :: "nat feature_row \<Rightarrow> real list" where
  \<comment> \<open>one row of the feature matrix, in the column order of the data frame\<close>
  "row_values r =
     [real (food_category r), real (meal_hour r), real (meal_day_of_week r),
      real (has_quantity r), quantity_feature r, real (has_notes r),
      real (has_ingredients r), real (has_dairy r), real (has_gluten r),
      real (has_spicy r), real (has_allergens r), real (allergen_count r),
      real_of_int (days_since_epoch r)]"

definition fit_models ::
  "sklearn \<Rightarrow> engine \<Rightarrow> model_dir \<Rightarrow> real list list \<Rightarrow> nat list
     \<Rightarrow> py_error \<times> engine + bool \<times> engine \<times> model_dir" where
  \<comment> \<open>\<open>train_models\<close> after its guard; an exception leaves with the engine as it is then\<close>
  "fit_models sk e d X y =
     (let (X_train, X_test, y_train, y_test) = train_test_split sk X y in
      case scaler_fit sk X_train of
        Inl err \<Rightarrow> Inl (err, e\<lparr>scaler := Unfitted\<rparr>)
      | Inr s \<Rightarrow>
     (let e1 = e\<lparr>scaler := s\<rparr> in
      case scaler_transform_rows s X_train of
        Inl err \<Rightarrow> Inl (err, e1)
      | Inr X_train_scaled \<Rightarrow>
     (case scaler_transform_rows s X_test of
        Inl err \<Rightarrow> Inl (err, e1)
      | Inr X_test_scaled \<Rightarrow>
     (case fit_random_forest sk X_train_scaled y_train of
        Inl err \<Rightarrow> Inl (err, e1)
      | Inr rf_model \<Rightarrow>
     (case fit_logistic_regression sk X_train_scaled y_train of
        Inl err \<Rightarrow> Inl (err, e1)
      | Inr lr_model \<Rightarrow>
     (let rf_score = accuracy_score sk rf_model X_test_scaled y_test;
          lr_score = accuracy_score sk lr_model X_test_scaled y_test;
          e2 = e1\<lparr> models := (models e1)
                  (random_forest \<mapsto>
                     \<lparr> model = rf_model, accuracy = Some rf_score,
                       model_type = ''Random Forest'' \<rparr>,
                   logistic_regression \<mapsto>
                     \<lparr> model = lr_model, accuracy = Some lr_score,
                       model_type = ''Logistic Regression'' \<rparr>),
                  is_trained := True \<rparr>
      in Inr (True, e2, save_models e2 d)))))))"

definition train_models ::
  "sklearn \<Rightarrow> engine \<Rightarrow> model_dir \<Rightarrow> nat feature_row list option \<Rightarrow> nat list option
     \<Rightarrow> py_error \<times> engine + bool \<times> engine \<times> model_dir" where
  "train_models sk e d X y =
     (case (X, y) of
        (Some rows, Some targets) \<Rightarrow>
          if length rows < 10 then Inr (False, e, d)
          else fit_models sk e d (map row_values rows) targets
      | _ \<Rightarrow> Inr (False, e, d))"

text \<open>
  A training request: the feature preparation on the user's history, then
  \<open>train_models\<close> on what it returned.
\<close>

definition train ::
  "sklearn \<Rightarrow> lower_table \<Rightarrow> engine \<Rightarrow> model_dir \<Rightarrow> meal list \<Rightarrow> symptom list
     \<Rightarrow> py_error \<times> engine + bool \<times> engine \<times> model_dir" where
  "train sk ucd e d meals_data symptoms_data =
     (case prepare_features ucd e meals_data symptoms_data of
        Inl err \<Rightarrow> Inl (err, e)
      | Inr (e1, None) \<Rightarrow> train_models sk e1 d None None
      | Inr (e1, Some (X, y)) \<Rightarrow> train_models sk e1 d (Some X) (Some y))"

subsection \<open>predict\_symptoms\<close>

record sub_prediction =
  sub_label :: string
  sub_confidence :: real

record prediction_result =
  prediction :: string
  confidence :: real
  recommendation :: string
  model_details :: "(sub_prediction \<times> sub_prediction) option"

definition generate_recommendation :: "string option feature_row \<Rightarrow> nat \<Rightarrow> real \<Rightarrow> string" where
  "generate_recommendation f pred conf =
     (if pred = 1 then
        if food_category f = Some ''dairy''
        then ''Consider dairy alternatives like almond milk or coconut yogurt.''
        else if food_category f = Some ''gluten''
        then ''Try gluten-free alternatives like quinoa or rice.''
        else if food_category f = Some ''spicy''
        then ''Consider milder versions or reduce spice levels.''
        else ''Monitor your symptoms and consider avoiding this food category temporarily.''
      else ''This food appears safe for you based on current data.'')"

definition not_trained :: prediction_result where
  \<comment> \<open>the dictionary returned while \<open>is_trained\<close> is false; it has no \<open>model_details\<close>\<close>
  "not_trained =
     \<lparr> prediction = ''Model not trained'', confidence = 0,
       recommendation = ''Need more data to make predictions'', model_details = None \<rparr>"

text \<open>
  A cell of the one-row data frame built from \<open>meal_features\<close>: a number, or the category
  text while no encoder has replaced it.
\<close>

datatype cell = Num real | Text "string option"

definition numeric_cells :: "'c feature_row \<Rightarrow> cell list" where
  "numeric_cells r =
     [Num (real (meal_hour r)), Num (real (meal_day_of_week r)),
      Num (real (has_quantity r)), Num (quantity_feature r), Num (real (has_notes r)),
      Num (real (has_ingredients r)), Num (real (has_dairy r)), Num (real (has_gluten r)),
      Num (real (has_spicy r)), Num (real (has_allergens r)), Num (real (allergen_count r)),
      Num (real_of_int (days_since_epoch r))]"

definition encode :: "engine \<Rightarrow> string option feature_row \<Rightarrow> py_error + cell list" where
  \<comment> \<open>the loop over \<open>self.label_encoders.items()\<close>\<close>
  "encode e f =
     (case label_encoders e of
        None \<Rightarrow> Inr (Text (food_category f) # numeric_cells f)
      | Some le \<Rightarrow>
          (case le_transform le (str (food_category f)) of
             Inl err \<Rightarrow> Inl err
           | Inr k \<Rightarrow> Inr (Num (real k) # numeric_cells f)))"

text \<open>
  \<open>self.scaler.transform(df)\<close> first checks that the scaler is fitted, then converts the
  frame to float64. The conversion of a text that no encoder replaced is the parameter
  \<open>np_float\<close> (NumPy's \<open>float(...)\<close> of the cell, which raises on a text that is no
  numeral).
\<close>

fun as_floats :: "(string option \<Rightarrow> py_error + real) \<Rightarrow> cell list \<Rightarrow> py_error + real list" where
  "as_floats np_float [] = Inr []"
| "as_floats np_float (c # cs) =
     (case (case c of Num v \<Rightarrow> Inr v | Text t \<Rightarrow> np_float t) of
        Inl err \<Rightarrow> Inl err
      | Inr v \<Rightarrow> (case as_floats np_float cs of Inl err \<Rightarrow> Inl err | Inr vs \<Rightarrow> Inr (v # vs)))"

definition scale_frame ::
  "(string option \<Rightarrow> py_error + real) \<Rightarrow> standard_scaler \<Rightarrow> cell list \<Rightarrow> py_error + real list" where
  "scale_frame np_float s df =
     (case s of
        Unfitted \<Rightarrow> Inl NotFittedError
      | Fitted ms ss \<Rightarrow>
          (case as_floats np_float df of
             Inl err \<Rightarrow> Inl err
           | Inr x \<Rightarrow> scaler_transform s x))"

definition likely :: "real \<times> real \<Rightarrow> bool" where
  \<comment> \<open>\<open>p[1] > 0.5\<close>\<close>
  "likely p = (snd p > 1 / 2)"

definition ensemble :: "real \<times> real \<Rightarrow> real \<times> real \<Rightarrow> real \<times> real" where
  \<comment> \<open>\<open>(rf_pred + lr_pred) / 2\<close>, elementwise in float64\<close>
  "ensemble p q = (fdiv (fadd (fst p) (fst q)) 2, fdiv (fadd (snd p) (snd q)) 2)"

definition max_prob :: "real \<times> real \<Rightarrow> real" where
  \<comment> \<open>\<open>max(p)\<close> of a two-entry array\<close>
  "max_prob p = max (fst p) (snd p)"

definition predict_symptoms ::
  "(string option \<Rightarrow> py_error + real) \<Rightarrow> engine \<Rightarrow> string option feature_row
     \<Rightarrow> py_error + prediction_result" where
  "predict_symptoms np_float e f =
     (if \<not> is_trained e then Inr not_trained
      else
     (case encode e f of
        Inl err \<Rightarrow> Inl err
      | Inr df \<Rightarrow>
     (case scale_frame np_float (scaler e) df of
        Inl err \<Rightarrow> Inl err
      | Inr X_scaled \<Rightarrow>
     (case models e random_forest of
        None \<Rightarrow> Inl (KeyError ''random_forest'')
      | Some rf \<Rightarrow>
     (case models e logistic_regression of
        None \<Rightarrow> Inl (KeyError ''logistic_regression'')
      | Some lr \<Rightarrow>
     (let rf_pred = model rf X_scaled;
          lr_pred = model lr X_scaled;
          ensemble_prob = ensemble rf_pred lr_pred;
          pred = (if likely ensemble_prob then 1 else 0);
          conf = max_prob ensemble_prob
      in Inr \<lparr> prediction =
                  (if pred = 1 then ''Likely to cause symptoms''
                   else ''Unlikely to cause symptoms''),
                confidence = conf,
                recommendation = generate_recommendation f pred conf,
                model_details = Some
                  (\<lparr> sub_label = (if likely rf_pred then ''Likely'' else ''Unlikely''),
                     sub_confidence = max_prob rf_pred \<rparr>,
                   \<lparr> sub_label = (if likely lr_pred then ''Likely'' else ''Unlikely''),
                     sub_confidence = max_prob lr_pred \<rparr>) \<rparr>))))))"

subsection \<open>Specification-level notions and concrete inputs\<close>

text \<open>
  The specification's words for the keyword flags: a keyword matches a text when it
  occurs in the text as a substring, ignoring case. A code point is a small letter
  ignoring case when it is that letter or its capital (for \<open>k\<close>, also the Kelvin sign);
  a capital I with dot above counts as its canonical decomposition, a capital I followed
  by a combining dot above.
\<close>

definition same_letter :: "nat \<Rightarrow> nat \<Rightarrow> bool" where
  "same_letter c l =
     (c = l \<or> (65 \<le> c \<and> c \<le> 90 \<and> c + 32 = l) \<or> (c = 8490 \<and> l = 107))"

definition decompose :: "unicode \<Rightarrow> unicode" where
  "decompose s = concat (map (\<lambda>c. if c = 304 then [73, 775] else [c]) s)"

definition occurs_ignoring_case :: "unicode \<Rightarrow> unicode \<Rightarrow> bool" where
  "occurs_ignoring_case w s = (\<exists>a t b. s = a @ t @ b \<and> list_all2 same_letter t w)"

definition matches_any :: "string list \<Rightarrow> unicode option \<Rightarrow> bool" where
  "matches_any words t =
     (\<exists>w \<in> set words. occurs_ignoring_case (codepoints w) (decompose (text_of t)))"

text \<open>
  What the Unicode database guarantees for the code points left to the parameter: the
  lower-case mapping of a code point outside ASCII (other than the two named in
  \<open>lower_at\<close>) is not empty and holds no ASCII code point.
\<close>

definition table_ok :: "lower_table \<Rightarrow> bool" where
  "table_ok ucd =
     (\<forall>s i. i < length s \<and> 128 \<le> s ! i \<longrightarrow>
        ucd s i \<noteq> [] \<and> (\<forall>k \<in> set (ucd s i). 128 \<le> k))"

definition plain_table :: lower_table where
  \<comment> \<open>a table that leaves every code point as it is\<close>
  "plain_table s i = [s ! i]"

text \<open>Notions for the proofs about \<open>lower\<close>.\<close>

definition lower_letter :: "nat \<Rightarrow> bool" where
  "lower_letter l = (97 \<le> l \<and> l \<le> 122)"

definition block_ok :: "unicode \<Rightarrow> nat \<Rightarrow> unicode \<Rightarrow> bool" where
  \<comment> \<open>a code point and a part of its lower-case mapping, seen from the letters of a keyword\<close>
  "block_ok w c b =
     ((\<forall>l \<in> set w. b = [l] \<longleftrightarrow> same_letter c l) \<and> b \<noteq> []
      \<and> (length b \<noteq> 1 \<longrightarrow> (\<forall>k \<in> set b. k \<notin> set w)))"

definition pieces :: "lower_table \<Rightarrow> unicode \<Rightarrow> nat \<Rightarrow> unicode list" where
  "pieces ucd s i = (if s ! i = 304 then [[105], [775]] else [lower_at ucd s i])"

definition scenario_meal :: meal where
  "scenario_meal =
     \<lparr> meal_ident = 1,
       food = \<lparr> category = Some ''gluten'',
                ingredients = Some (codepoints ''Whole wheat flour, water, yeast''),
                allergens = None \<rparr>,
       meal_time = 0, quantity = None, meal_notes = None \<rparr>"


text \<open>
  Concrete inputs: a float conversion that rejects every text, three prediction
  requests, and an engine as a successful training leaves it.
\<close>

definition no_float :: "string option \<Rightarrow> py_error + real" where
  "no_float t = Inl (ValueError ''could not convert string to float'')"

definition spicy_row :: "string option feature_row" where
  "spicy_row =
     \<lparr> food_category = Some ''spicy'', meal_hour = 19, meal_day_of_week = 4,
       has_quantity = 1, quantity_feature = 2, has_notes = 0, has_ingredients = 1,
       has_dairy = 0, has_gluten = 0, has_spicy = 1, has_allergens = 0,
       allergen_count = 0, days_since_epoch = 20000 \<rparr>"

definition raw_row :: "string option feature_row" where
  "raw_row = spicy_row\<lparr>food_category := Some ''raw''\<rparr>"

definition unnamed_row :: "string option feature_row" where
  "unnamed_row = spicy_row\<lparr>food_category := None\<rparr>"

definition unit_scaler :: standard_scaler where
  "unit_scaler =
     Fitted [0, 0, 0, 0, 0, 0, 0, 0, 0, 0, 0, 0, 0] [1, 1, 1, 1, 1, 1, 1, 1, 1, 1, 1, 1, 1]"

definition trained_engine :: engine where
  "trained_engine =
     \<lparr> models =
         [random_forest \<mapsto>
            \<lparr> model = (\<lambda>x. (1 / 4, 3 / 4)), accuracy = Some 1,
              model_type = ''Random Forest'' \<rparr>,
          logistic_regression \<mapsto>
            \<lparr> model = (\<lambda>x. (1 / 2, 1 / 2)), accuracy = Some (1 / 2),
              model_type = ''Logistic Regression'' \<rparr>],
       label_encoders = Some (LabelEncoder [''dairy'', ''spicy'']),
       scaler = unit_scaler, is_trained = True \<rparr>"

text \<open>
  A pair of probabilities, each between 0 and 1.
\<close>

definition probabilities :: "real \<times> real \<Rightarrow> bool" where
  "probabilities p = (0 \<le> fst p \<and> fst p \<le> 1 \<and> 0 \<le> snd p \<and> snd p \<le> 1)"

text \<open>
  An engine whose random forest answers with the two float64 neighbours of one half,
  0.4999999999999999 and 0.5000000000000001, and whose logistic regression answers one
  half twice.
\<close>

definition tie_engine :: engine where
  "tie_engine =
     trained_engine\<lparr> models :=
       [random_forest \<mapsto>
          \<lparr> model = (\<lambda>x. (1 / 2 - 1 / 2 ^ 53, 1 / 2 + 1 / 2 ^ 53)), accuracy = Some 1,
            model_type = ''Random Forest'' \<rparr>,
        logistic_regression \<mapsto>
          \<lparr> model = (\<lambda>x. (1 / 2, 1 / 2)), accuracy = Some (1 / 2),
            model_type = ''Logistic Regression'' \<rparr>] \<rparr>"

text \<open>
  The statistics of the column (5, 5) as \<open>StandardScaler.fit\<close> computes them: mean 5,
  variance 0. The other parameters play no part in the fit of the scaler.
\<close>

definition five_stats :: sklearn where
  "five_stats =
     \<lparr> train_test_split = (\<lambda>X y. (X, [], y, [])),
       fit_random_forest = (\<lambda>X y. Inr (\<lambda>x. (1 / 2, 1 / 2))),
       fit_logistic_regression = (\<lambda>X y. Inr (\<lambda>x. (1 / 2, 1 / 2))),
       accuracy_score = (\<lambda>c X y. 1),
       fitted_mean = (\<lambda>col. 5), fitted_var = (\<lambda>col. 0), fitted_scale = (\<lambda>col. 1) \<rparr>"

text \<open>
  More concrete inputs: two meals of other categories, a classifier that always answers
  one half, and a model directory that holds the random-forest artifact only.
\<close>

definition spicy_meal :: meal where
  "spicy_meal =
     scenario_meal\<lparr> meal_ident := 2,
       food := \<lparr> category = Some ''spicy'',
                 ingredients = Some (codepoints ''Chili, beans''), allergens = None \<rparr> \<rparr>"

definition dairy_meal :: meal where
  "dairy_meal =
     scenario_meal\<lparr> meal_ident := 3,
       food := \<lparr> category = Some ''dairy'', ingredients = Some (codepoints ''Milk''),
                 allergens = Some (codepoints ''dairy'') \<rparr> \<rparr>"

text \<open>
  Two meals that spell milk in capitals, the second with the Kelvin sign for the K.
\<close>

definition capitals_meal :: meal where
  "capitals_meal =
     scenario_meal\<lparr> meal_ident := 4,
       food := \<lparr> category = Some ''dairy'', ingredients = Some (codepoints ''Whole MILK''),
                 allergens = None \<rparr> \<rparr>"

definition kelvin_meal :: meal where
  "kelvin_meal =
     scenario_meal\<lparr> meal_ident := 5,
       food := \<lparr> category = Some ''dairy'',
                 ingredients = Some (codepoints ''MIL'' @ [8490]), allergens = None \<rparr> \<rparr>"

definition half :: classifier where
  "half x = (1 / 2, 1 / 2)"

definition forest_only_dir :: model_dir where
  "forest_only_dir = empty_dir\<lparr> model_files := [random_forest \<mapsto> Pickled half] \<rparr>"

text \<open>
  Two ways to number the distinct values of a column: by their rank in sorted order, and
  in the order in which they are first seen (the specification's words).
\<close>

definition rank :: "string list \<Rightarrow> string \<Rightarrow> nat" where
  "rank ys v = card {u \<in> set ys. u < v}"

fun first_seen :: "string list \<Rightarrow> string list" where
  "first_seen [] = []"
| "first_seen (y # ys) = y # filter (\<lambda>u. u \<noteq> y) (first_seen ys)"


section \<open>Properties\<close>

subsection \<open>Rounding to float64\<close>

lemma rhe_ge: "of_int n \<le> q \<Longrightarrow> n \<le> round_half_even q"
proof -
  assume "of_int n \<le> q"
  then have "n \<le> \<lfloor>q\<rfloor>" by (simp add: le_floor_iff)
  then show ?thesis by (auto simp: round_half_even_def Let_def)
qed

lemma rhe_le: "q \<le> of_int n \<Longrightarrow> round_half_even q \<le> n"
proof -
  assume a: "q \<le> of_int n"
  show ?thesis
  proof (cases "q = of_int n")
    case True then show ?thesis by (simp add: round_half_even_def)
  next
    case False
    with a have "q < of_int n" by simp
    then have "\<lfloor>q\<rfloor> < n" by (simp add: floor_less_iff)
    then show ?thesis by (auto simp: round_half_even_def Let_def)
  qed
qed

lemma rhe_int: "round_half_even (of_int n) = n"
  by (simp add: round_half_even_def)

lemma p2_pos: "0 < (2::real) powi a"
  by (simp add: zero_less_power_int)

lemma p2_le_iff: "(2::real) powi a \<le> 2 powi b \<longleftrightarrow> a \<le> b"
proof
  assume "a \<le> b" then show "(2::real) powi a \<le> 2 powi b"
    by (intro power_int_increasing) auto
next
  assume le: "(2::real) powi a \<le> 2 powi b"
  show "a \<le> b"
  proof (rule ccontr)
    assume "\<not> a \<le> b"
    then have "(2::real) powi b < 2 powi a" by (intro power_int_strict_increasing) auto
    with le show False by simp
  qed
qed

lemma p2_less_iff: "(2::real) powi a < 2 powi b \<longleftrightarrow> a < b"
  using p2_le_iff[of b a] by (auto simp: not_le[symmetric])

lemma p2_powr: "2 powr (of_int n) = (2::real) powi n"
  by (rule powr_real_of_int') auto

lemma exponent_bounds:
  assumes "x \<noteq> 0"
  shows "2 powi exponent x \<le> \<bar>x\<bar>" "\<bar>x\<bar> < 2 powi (exponent x + 1)"
proof -
  have pos: "0 < \<bar>x\<bar>" using assms by simp
  have "of_int (exponent x) \<le> log 2 \<bar>x\<bar>" by (simp add: exponent_def)
  then have "2 powr (of_int (exponent x)) \<le> 2 powr (log 2 \<bar>x\<bar>)" by simp
  then show "2 powi exponent x \<le> \<bar>x\<bar>" using pos by (simp add: p2_powr)
  have "log 2 \<bar>x\<bar> < of_int (exponent x + 1)" by (simp add: exponent_def)
  then have "2 powr (log 2 \<bar>x\<bar>) < 2 powr (of_int (exponent x + 1))" by (simp del: of_int_add)
  then show "\<bar>x\<bar> < 2 powi (exponent x + 1)" using pos unfolding p2_powr by simp
qed

lemma exponent_le:
  assumes "x \<noteq> 0" "\<bar>x\<bar> \<le> 2 powi k"
  shows "exponent x \<le> k"
proof -
  have "(2::real) powi exponent x \<le> 2 powi k" using exponent_bounds(1)[OF assms(1)] assms(2) by simp
  then show ?thesis by (simp add: p2_le_iff)
qed

lemma exponent_less:
  assumes "x \<noteq> 0" "\<bar>x\<bar> < 2 powi k"
  shows "exponent x < k"
proof -
  have "(2::real) powi exponent x < 2 powi k" using exponent_bounds(1)[OF assms(1)] assms(2) by simp
  then show ?thesis by (simp add: p2_less_iff)
qed

lemma p2_nonzero: "2 powi k \<le> \<bar>x :: real\<bar> \<Longrightarrow> x \<noteq> 0"
proof
  assume "2 powi k \<le> \<bar>x\<bar>" "x = 0"
  then have "(2::real) powi k \<le> 0" by simp
  moreover have "0 < (2::real) powi k" by (rule p2_pos)
  ultimately show False by linarith
qed

lemma exponent_ge:
  assumes "2 powi k \<le> \<bar>x\<bar>"
  shows "k \<le> exponent x"
proof -
  have nz: "x \<noteq> 0" using assms by (rule p2_nonzero)
  have "(2::real) powi k < 2 powi (exponent x + 1)" using exponent_bounds(2)[OF nz] assms by simp
  then have "k < exponent x + 1" by (simp add: p2_less_iff)
  then show ?thesis by simp
qed

lemma exponent_eq:
  assumes "2 powi e \<le> \<bar>x\<bar>" "\<bar>x\<bar> < 2 powi (e + 1)"
  shows "exponent x = e"
proof -
  have nz: "x \<noteq> 0" using assms(1) by (rule p2_nonzero)
  have "e \<le> exponent x" using exponent_ge[OF assms(1)] .
  moreover have "exponent x < e + 1" using exponent_less[OF nz assms(2)] .
  ultimately show ?thesis by simp
qed

lemma ulp_pos: "0 < ulp x"
  by (simp add: ulp_def p2_pos)

lemma p2_int: "0 \<le> k \<Longrightarrow> (2::real) powi k = of_int (2 ^ nat k)"
  by (simp add: power_int_def)

lemma round64_le_p2:
  assumes "x \<le> 2 powi k" "- 1074 \<le> k"
  shows "round64 x \<le> 2 powi k"
proof (cases "x \<le> 0")
  case True
  then have "x / ulp x \<le> of_int 0" using ulp_pos[of x] by (simp add: divide_le_0_iff)
  then have "round_half_even (x / ulp x) \<le> 0" by (rule rhe_le)
  then have "of_int (round_half_even (x / ulp x)) * ulp x \<le> 0"
    using ulp_pos[of x] by (simp add: mult_le_0_iff)
  then have "round64 x \<le> 0" by (simp add: round64_def)
  moreover have "0 < (2::real) powi k" by (rule p2_pos)
  ultimately show ?thesis by linarith
next
  case False
  then have pos: "0 < x" and nz: "x \<noteq> 0" by auto
  define m where "m = max (exponent x - 52) (- 1074)"
  have "exponent x \<le> k" using exponent_le[OF nz] assms(1) pos by simp
  then have mk: "m \<le> k" using assms(2) by (simp add: m_def)
  have u: "ulp x = 2 powi m" by (simp add: ulp_def m_def)
  have split: "(2::real) powi k = 2 powi (k - m) * 2 powi m"
    by (simp flip: power_int_add)
  have N: "(2::real) powi (k - m) = of_int (2 ^ nat (k - m))" using mk by (intro p2_int) simp
  have "x \<le> 2 powi (k - m) * 2 powi m" using assms(1) split by simp
  then have "x / 2 powi m \<le> 2 powi (k - m)"
    using p2_pos[of m] by (simp add: pos_divide_le_eq)
  then have "round_half_even (x / 2 powi m) \<le> 2 ^ nat (k - m)" unfolding N by (rule rhe_le)
  then have "of_int (round_half_even (x / 2 powi m)) \<le> (2::real) powi (k - m)"
    unfolding N by linarith
  then have "of_int (round_half_even (x / 2 powi m)) * (2::real) powi m \<le> 2 powi (k - m) * 2 powi m"
    using p2_pos[of m] by (simp add: mult_right_mono)
  then show ?thesis using nz unfolding round64_def u split by simp
qed


lemma round64_nonneg: "0 \<le> x \<Longrightarrow> 0 \<le> round64 x"
proof -
  assume "0 \<le> x"
  then have "of_int 0 \<le> x / ulp x" using ulp_pos[of x] by simp
  then have "0 \<le> round_half_even (x / ulp x)" by (rule rhe_ge)
  then show ?thesis using ulp_pos[of x] by (simp add: round64_def)
qed

lemma round64_representable:
  assumes "x = of_int n * 2 powi k" "\<bar>n\<bar> < 2 ^ 53" "- 1074 \<le> k"
  shows "round64 x = x"
proof (cases "x = 0")
  case True then show ?thesis by (simp add: round64_def)
next
  case nz: False
  define m where "m = max (exponent x - 52) (- 1074)"
  have u: "ulp x = 2 powi m" by (simp add: ulp_def m_def)
  have "\<bar>x\<bar> = of_int \<bar>n\<bar> * 2 powi k" using p2_pos[of k] by (simp add: assms(1) abs_mult)
  also have "\<dots> < of_int (2 ^ 53) * 2 powi k"
  proof (rule mult_strict_right_mono)
    show "real_of_int \<bar>n\<bar> < real_of_int (2 ^ 53)" using assms(2) by (simp only: of_int_less_iff)
    show "0 < (2::real) powi k" by (rule p2_pos)
  qed
  also have "\<dots> = 2 powi (53 + k)" by (simp add: power_int_add)
  finally have "exponent x < 53 + k" using exponent_less[OF nz] by simp
  then have mk: "m \<le> k" using assms(3) by (simp add: m_def)
  have split: "(2::real) powi k = 2 powi (k - m) * 2 powi m"
    by (simp flip: power_int_add)
  have N: "(2::real) powi (k - m) = of_int (2 ^ nat (k - m))" using mk by (intro p2_int) simp
  have q: "x / 2 powi m = of_int (n * 2 ^ nat (k - m))"
    using p2_pos[of m] by (simp add: assms(1) split N)
  have "round64 x = of_int (n * 2 ^ nat (k - m)) * 2 powi m"
    using nz unfolding round64_def u q rhe_int by simp
  also have "\<dots> = x" using q p2_pos[of m] by (simp add: field_simps)
  finally show ?thesis .
qed

lemma round64_eval:
  assumes "2 powi e \<le> \<bar>x\<bar>" "\<bar>x\<bar> < 2 powi (e + 1)"
  shows "round64 x = of_int (round_half_even (x / 2 powi (max (e - 52) (- 1074)))) * 2 powi (max (e - 52) (- 1074))"
  using p2_nonzero[OF assms(1)] exponent_eq[OF assms]
  by (simp add: round64_def ulp_def)

lemma rhe_gt_half: "of_int n + 1 / 2 < q \<Longrightarrow> n + 1 \<le> round_half_even q"
proof -
  assume a: "of_int n + 1 / 2 < q"
  then have "of_int n \<le> q" by linarith
  then have fl: "n \<le> \<lfloor>q\<rfloor>" by (simp add: le_floor_iff)
  show ?thesis
  proof (cases "n = \<lfloor>q\<rfloor>")
    case True
    then have "1 / 2 < q - of_int \<lfloor>q\<rfloor>" using a by simp
    then show ?thesis using True by (simp add: round_half_even_def Let_def)
  next
    case False
    with fl have "n + 1 \<le> \<lfloor>q\<rfloor>" by simp
    then show ?thesis by (auto simp: round_half_even_def Let_def)
  qed
qed

lemma rhe_le_half_even: "q \<le> of_int n + 1 / 2 \<Longrightarrow> even n \<Longrightarrow> round_half_even q \<le> n"
proof -
  assume a: "q \<le> of_int n + 1 / 2" and ev: "even n"
  then have "q < of_int (n + 1)" by simp
  then have fl: "\<lfloor>q\<rfloor> < n + 1" by (simp only: floor_less_iff)
  show ?thesis
  proof (cases "\<lfloor>q\<rfloor> = n")
    case True
    then have "q - of_int \<lfloor>q\<rfloor> \<le> 1 / 2" using a by simp
    then show ?thesis using True ev by (auto simp: round_half_even_def Let_def)
  next
    case False
    with fl have "\<lfloor>q\<rfloor> + 1 \<le> n" by simp
    then show ?thesis by (auto simp: round_half_even_def Let_def)
  qed
qed

lemma round64_unit_interval:
  assumes "1 \<le> x" "x < 2"
  shows "round64 x = of_int (round_half_even (x * 2 ^ 52)) / 2 ^ 52"
proof -
  have "round64 x = of_int (round_half_even (x / 2 powi (max (0 - 52) (- 1074)))) * 2 powi (max (0 - 52) (- 1074))"
    using assms by (intro round64_eval) simp_all
  then show ?thesis by (simp add: power_int_minus field_simps)
qed

lemma round64_half_interval:
  assumes "1 / 2 \<le> x" "x < 1"
  shows "round64 x = of_int (round_half_even (x * 2 ^ 53)) / 2 ^ 53"
proof -
  have "round64 x = of_int (round_half_even (x / 2 powi (max (- 1 - 52) (- 1074)))) * 2 powi (max (- 1 - 52) (- 1074))"
    using assms by (intro round64_eval) (simp_all add: power_int_minus)
  then show ?thesis by (simp add: power_int_minus field_simps)
qed

lemma round64_le_1: "x \<le> 1 \<Longrightarrow> round64 x \<le> 1"
  using round64_le_p2[of x 0] by simp

lemma round64_le_2: "x \<le> 2 \<Longrightarrow> round64 x \<le> 2"
  using round64_le_p2[of x 1] by simp

lemma round64_le_half: "x \<le> 1 / 2 \<Longrightarrow> round64 x \<le> 1 / 2"
  using round64_le_p2[of x "- 1"] by (simp add: power_int_minus)



lemma round64_small: "round64 1 = 1" "round64 2 = 2"
  using round64_representable[of 1 1 0] round64_representable[of 2 2 0] by simp_all

lemma half_sum_gt_half_iff:
  assumes "s \<le> 2"
  shows "1 / 2 < fdiv (round64 s) 2 \<longleftrightarrow> 1 + 1 / 2 ^ 53 < s"
proof
  assume gap: "1 + 1 / 2 ^ 53 < s"
  have y: "1 + 1 / 2 ^ 52 \<le> round64 s"
  proof (cases "s = 2")
    case True then show ?thesis by (simp add: round64_small)
  next
    case False
    then have s: "1 \<le> s" "s < 2" using assms gap by auto
    have "of_int (2 ^ 52) + 1 / 2 < s * 2 ^ 52" using gap by (simp add: field_simps)
    then have "2 ^ 52 + 1 \<le> round_half_even (s * 2 ^ 52)" by (rule rhe_gt_half)
    then have "real_of_int (2 ^ 52 + 1) \<le> of_int (round_half_even (s * 2 ^ 52))"
      by (simp only: of_int_le_iff)
    then show ?thesis unfolding round64_unit_interval[OF s] by (simp add: field_simps)
  qed
  have y2: "round64 s \<le> 2" using assms by (rule round64_le_2)
  show "1 / 2 < fdiv (round64 s) 2"
  proof (cases "round64 s = 2")
    case True then show ?thesis by (simp add: fdiv_def round64_small)
  next
    case False
    then have h: "1 / 2 \<le> round64 s / 2" "round64 s / 2 < 1" using y y2 by auto
    have "of_int (2 ^ 52 + 1) \<le> round64 s / 2 * 2 ^ 53" using y by (simp add: field_simps)
    then have "2 ^ 52 + 1 \<le> round_half_even (round64 s / 2 * 2 ^ 53)" by (rule rhe_ge)
    then have "real_of_int (2 ^ 52 + 1) \<le> of_int (round_half_even (round64 s / 2 * 2 ^ 53))"
      by (simp only: of_int_le_iff)
    then show ?thesis unfolding fdiv_def round64_half_interval[OF h] by (simp add: field_simps)
  qed
next
  assume l: "1 / 2 < fdiv (round64 s) 2"
  show "1 + 1 / 2 ^ 53 < s"
  proof (rule ccontr)
    assume "\<not> 1 + 1 / 2 ^ 53 < s"
    then have le: "s \<le> 1 + 1 / 2 ^ 53" by simp
    have "round64 s \<le> 1"
    proof (cases "s \<le> 1")
      case True then show ?thesis by (rule round64_le_1)
    next
      case False
      then have s: "1 \<le> s" "s < 2" using le by (auto simp: field_simps)
      have "s * 2 ^ 52 \<le> of_int (2 ^ 52) + 1 / 2" using le by (simp add: field_simps)
      then have "round_half_even (s * 2 ^ 52) \<le> 2 ^ 52" by (rule rhe_le_half_even) simp
      then have "real_of_int (round_half_even (s * 2 ^ 52)) \<le> of_int (2 ^ 52)"
        by (simp only: of_int_le_iff)
      then show ?thesis unfolding round64_unit_interval[OF s] by (simp add: field_simps)
    qed
    then have "round64 s / 2 \<le> 1 / 2" by simp
    then have "fdiv (round64 s) 2 \<le> 1 / 2" unfolding fdiv_def by (rule round64_le_half)
    with l show False by simp
  qed
qed



lemma round64_values:
  "round64 0 = 0" "round64 4 = 4" "round64 19 = 19" "round64 20000 = 20000"
  "round64 (3 / 4) = 3 / 4" "round64 (5 / 4) = 5 / 4"
  "round64 (3 / 8) = 3 / 8" "round64 (5 / 8) = 5 / 8"
  "round64 (1 / 2) = 1 / 2"
  using round64_representable[of 4 4 0] round64_representable[of 19 19 0]
    round64_representable[of 20000 20000 0]
    round64_representable[of "3 / 4" 3 "- 2"] round64_representable[of "5 / 4" 5 "- 2"]
    round64_representable[of "3 / 8" 3 "- 3"] round64_representable[of "5 / 8" 5 "- 3"]
    round64_representable[of "1 / 2" 1 "- 1"]
  by (simp_all add: round64_def power_int_minus)

lemma round64_tie:
  "round64 (1 + 1 / 2 ^ 53) = 1"
  "round64 (1 - 1 / 2 ^ 53) = 1 - 1 / 2 ^ 53"
  "round64 ((1 - 1 / 2 ^ 53) / 2) = (1 - 1 / 2 ^ 53) / 2"
proof -
  have "round64 (1 + 1 / 2 ^ 53) = of_int (round_half_even ((1 + 1 / 2 ^ 53) * 2 ^ 52)) / 2 ^ 52"
    by (rule round64_unit_interval) simp_all
  also have "\<dots> = 1" by (simp add: round_half_even_def)
  finally show "round64 (1 + 1 / 2 ^ 53) = 1" .
  show "round64 (1 - 1 / 2 ^ 53) = 1 - 1 / 2 ^ 53"
    using round64_representable[of "1 - 1 / 2 ^ 53" "2 ^ 53 - 1" "- 53"]
    by (simp add: power_int_minus field_simps)
  show "round64 ((1 - 1 / 2 ^ 53) / 2) = (1 - 1 / 2 ^ 53) / 2"
    using round64_representable[of "(1 - 1 / 2 ^ 53) / 2" "2 ^ 53 - 1" "- 54"]
    by (simp add: power_int_minus field_simps)
qed

subsection \<open>Substring search in a lower-cased text\<close>

lemma startswith_blocks:
  assumes "list_all2 (block_ok w0) s bs" "set w \<subseteq> set w0"
  shows "startswith (concat bs) w \<longleftrightarrow> (\<exists>t r. s = t @ r \<and> list_all2 same_letter t w)"
  using assms
proof (induction w arbitrary: s bs)
  case Nil
  then show ?case by auto
next
  case (Cons l w)
  show ?case
  proof (cases s)
    case Nil
    then show ?thesis using Cons.prems by auto
  next
    case sc: (Cons c s')
    then obtain b bs' where bs: "bs = b # bs'" and ok: "block_ok w0 c b" and rest: "list_all2 (block_ok w0) s' bs'"
      using Cons.prems(1) by (auto simp: list_all2_Cons1)
    have l0: "l \<in> set w0" and w0: "set w \<subseteq> set w0" using Cons.prems(2) by auto
    have IH: "startswith (concat bs') w \<longleftrightarrow> (\<exists>t r. s' = t @ r \<and> list_all2 same_letter t w)"
      using Cons.IH[OF rest w0] .
    have rhs: "(\<exists>t r. c # s' = t @ r \<and> list_all2 same_letter t (l # w))
        \<longleftrightarrow> same_letter c l \<and> (\<exists>t r. s' = t @ r \<and> list_all2 same_letter t w)"
      by (auto simp: list_all2_Cons2 Cons_eq_append_conv)
    have lhs: "startswith (concat (b # bs')) (l # w) \<longleftrightarrow> same_letter c l \<and> startswith (concat bs') w"
    proof (cases "length b = 1")
      case True
      then obtain k where k: "b = [k]" by (cases b) auto
      show ?thesis using ok l0 by (auto simp: k block_ok_def)
    next
      case False
      then obtain k b' where k: "b = k # b'" using ok by (cases b) (auto simp: block_ok_def)
      have "k \<noteq> l" using ok False l0 by (auto simp: block_ok_def k)
      moreover have "\<not> same_letter c l" using ok l0 False by (auto simp: block_ok_def)
      ultimately show ?thesis by (simp add: k)
    qed
    show ?thesis unfolding sc bs lhs rhs IH ..
  qed
qed

lemma contains_skip:
  assumes "\<forall>k \<in> set b. k \<noteq> l"
  shows "contains (b @ rest) (l # w) = contains rest (l # w)"
  using assms by (induction b) auto

lemma contains_blocks:
  assumes "list_all2 (block_ok w) s bs" "w \<noteq> []"
  shows "contains (concat bs) w \<longleftrightarrow> occurs_ignoring_case w s"
  using assms(1)
proof (induction rule: list_all2_induct)
  case Nil
  then show ?case using assms(2) by (auto simp: occurs_ignoring_case_def)
next
  case (Cons c s b bs)
  obtain l w' where w: "w = l # w'" using assms(2) by (cases w) auto
  have pre: "startswith (concat (b # bs)) w \<longleftrightarrow> (\<exists>t r. c # s = t @ r \<and> list_all2 same_letter t w)"
    by (rule startswith_blocks[where ?w0.0 = w]) (use Cons in auto)
  have split: "occurs_ignoring_case w (c # s) \<longleftrightarrow>
      (\<exists>t r. c # s = t @ r \<and> list_all2 same_letter t w) \<or> occurs_ignoring_case w s"
  proof
    assume "occurs_ignoring_case w (c # s)"
    then obtain a t r where atr: "c # s = a @ t @ r" "list_all2 same_letter t w"
      by (auto simp: occurs_ignoring_case_def)
    show "(\<exists>t r. c # s = t @ r \<and> list_all2 same_letter t w) \<or> occurs_ignoring_case w s"
    proof (cases a)
      case Nil then show ?thesis using atr by auto
    next
      case (Cons x a') then have "s = a' @ t @ r" using atr(1) by simp
      then show ?thesis using atr(2) by (auto simp: occurs_ignoring_case_def)
    qed
  next
    assume "(\<exists>t r. c # s = t @ r \<and> list_all2 same_letter t w) \<or> occurs_ignoring_case w s"
    then show "occurs_ignoring_case w (c # s)"
    proof
      assume "\<exists>t r. c # s = t @ r \<and> list_all2 same_letter t w"
      then obtain t r where "c # s = [] @ t @ r" "list_all2 same_letter t w" by auto
      then show ?thesis unfolding occurs_ignoring_case_def by blast
    next
      assume "occurs_ignoring_case w s"
      then obtain a t r where "s = a @ t @ r" "list_all2 same_letter t w"
        by (auto simp: occurs_ignoring_case_def)
      then have "c # s = (c # a) @ t @ r" by simp
      then show ?thesis unfolding occurs_ignoring_case_def using \<open>list_all2 same_letter t w\<close> by blast
    qed
  qed
  have lhs: "contains (concat (b # bs)) w \<longleftrightarrow> startswith (concat (b # bs)) w \<or> contains (concat bs) w"
  proof (cases "length b = 1")
    case True
    then obtain k where k: "b = [k]" by (cases b) auto
    show ?thesis by (simp add: k)
  next
    case False
    then have no: "\<forall>k \<in> set b. k \<noteq> l" using Cons.hyps(1) by (auto simp: block_ok_def w)
    obtain k b' where k: "b = k # b'" using Cons.hyps(1) by (cases b) (auto simp: block_ok_def)
    have "\<not> startswith (concat (b # bs)) w" using no by (simp add: k w)
    moreover have "contains (concat (b # bs)) w = contains (concat bs) w"
      using contains_skip[OF no] by (simp add: w)
    ultimately show ?thesis by simp
  qed
  show ?case unfolding lhs pre split Cons.IH ..
qed

lemma block_ok_lower_at:
  assumes "table_ok ucd" "i < length s" "s ! i \<noteq> 304" "\<forall>l \<in> set w. lower_letter l"
  shows "block_ok w (s ! i) (lower_at ucd s i)"
proof -
  let ?c = "s ! i"
  consider "65 \<le> ?c \<and> ?c \<le> 90" | "?c < 128 \<and> \<not> (65 \<le> ?c \<and> ?c \<le> 90)" | "?c = 8490"
    | "128 \<le> ?c \<and> ?c \<noteq> 8490" by linarith
  then show ?thesis
  proof cases
    case 1
    then show ?thesis using assms(4)
      by (auto simp: block_ok_def lower_at_def Let_def same_letter_def lower_letter_def)
  next
    case 2
    then show ?thesis using assms(4)
      by (auto simp: block_ok_def lower_at_def Let_def same_letter_def lower_letter_def)
  next
    case 3
    then show ?thesis using assms(4)
      by (auto simp: block_ok_def lower_at_def Let_def same_letter_def lower_letter_def)
  next
    case 4
    then have b: "lower_at ucd s i = ucd s i" using assms(3) by (simp add: lower_at_def Let_def)
    have t: "ucd s i \<noteq> []" "\<forall>k \<in> set (ucd s i). 128 \<le> k"
      using assms(1,2) 4 by (auto simp: table_ok_def)
    have w: "\<forall>l \<in> set w. l < 128" using assms(4) by (auto simp: lower_letter_def)
    have ns: "\<not> same_letter ?c l" if "l \<in> set w" for l
      using 4 w that by (auto simp: same_letter_def)
    have nb: "ucd s i \<noteq> [l]" if "l \<in> set w" for l
      using t(2) w that by auto
    show ?thesis unfolding b block_ok_def using t ns nb w by fastforce
  qed
qed

lemma pieces_concat: "concat (pieces ucd s i) = lower_at ucd s i"
  by (simp add: pieces_def lower_at_def)

lemma pieces_ok:
  assumes "table_ok ucd" "i < length s" "\<forall>l \<in> set w. lower_letter l"
  shows "list_all2 (block_ok w) (if s ! i = 304 then [73, 775] else [s ! i]) (pieces ucd s i)"
proof (cases "s ! i = 304")
  case True
  have "block_ok w 73 [105]" using assms(3)
    by (auto simp: block_ok_def same_letter_def lower_letter_def)
  moreover have "block_ok w 775 [775]" using assms(3)
    by (auto simp: block_ok_def same_letter_def lower_letter_def)
  ultimately show ?thesis using True by (simp add: pieces_def)
next
  case False
  then show ?thesis using block_ok_lower_at[OF assms(1,2) False assms(3)] by (simp add: pieces_def)
qed

lemma blocks_of_indices:
  assumes "table_ok ucd" "\<forall>l \<in> set w. lower_letter l" "\<forall>i \<in> set is. i < length s"
  shows "list_all2 (block_ok w)
           (concat (map (\<lambda>i. if s ! i = 304 then [73, 775] else [s ! i]) is))
           (concat (map (pieces ucd s) is))"
  using assms(3)
proof (induction "is")
  case Nil then show ?case by simp
next
  case (Cons i "is")
  have "list_all2 (block_ok w) (if s ! i = 304 then [73, 775] else [s ! i]) (pieces ucd s i)"
    using pieces_ok[OF assms(1) _ assms(2)] Cons.prems by simp
  moreover have "list_all2 (block_ok w)
           (concat (map (\<lambda>i. if s ! i = 304 then [73, 775] else [s ! i]) is))
           (concat (map (pieces ucd s) is))" using Cons by simp
  ultimately show ?case by (simp add: list_all2_appendI)
qed

lemma decompose_indices: "decompose s = concat (map (\<lambda>i. if s ! i = 304 then [73, 775] else [s ! i]) [0..<length s])"
proof -
  have "map (\<lambda>c. if c = 304 then [73, 775] else [c]) s
      = map (\<lambda>i. if s ! i = 304 then [73, 775] else [s ! i :: nat]) [0..<length s]"
    by (rule nth_equalityI) simp_all
  then show ?thesis by (simp add: decompose_def)
qed

lemma lower_pieces: "lower ucd s = concat (concat (map (pieces ucd s) [0..<length s]))"
proof -
  have "concat (concat (map (pieces ucd s) is)) = concat (map (lower_at ucd s) is)" for "is"
    by (induction "is") (simp_all add: pieces_concat)
  then show ?thesis by (simp add: lower_def)
qed

lemma contains_lower:
  assumes "table_ok ucd" "\<forall>l \<in> set w. lower_letter l" "w \<noteq> []"
  shows "contains (lower ucd s) w \<longleftrightarrow> occurs_ignoring_case w (decompose s)"
  unfolding lower_pieces decompose_indices
  by (rule contains_blocks[OF blocks_of_indices[OF assms(1,2)] assms(3)]) simp

lemma keywords_lower:
  "\<forall>w \<in> set [''milk'', ''cheese'', ''yogurt'', ''butter'', ''cream''].
     codepoints w \<noteq> [] \<and> (\<forall>l \<in> set (codepoints w). lower_letter l)"
  "\<forall>w \<in> set [''wheat'', ''flour'', ''bread'', ''pasta''].
     codepoints w \<noteq> [] \<and> (\<forall>l \<in> set (codepoints w). lower_letter l)"
  "\<forall>w \<in> set [''pepper'', ''chili'', ''hot'', ''spicy''].
     codepoints w \<noteq> [] \<and> (\<forall>l \<in> set (codepoints w). lower_letter l)"
  by code_simp+

lemma any_in_matches:
  assumes "table_ok ucd"
    and "\<forall>w \<in> set words. codepoints w \<noteq> [] \<and> (\<forall>l \<in> set (codepoints w). lower_letter l)"
  shows "(if truthy t then flag (any_in (map codepoints words) (lower ucd (text_of t))) else 0)
           = flag (matches_any words t)"
proof (cases "truthy t")
  case True
  have "contains (lower ucd (text_of t)) (codepoints w)
          \<longleftrightarrow> occurs_ignoring_case (codepoints w) (decompose (text_of t))"
    if "w \<in> set words" for w
    using assms(2) that by (intro contains_lower[OF assms(1)]) auto
  then show ?thesis using True
    by (auto simp: any_in_def list_ex_iff matches_any_def flag_def)
next
  case False
  then have "text_of t = []"
    by (auto simp: truthy_def text_of_def split: option.splits)
  then have "\<not> matches_any words t" using assms(2)
    by (auto simp: matches_any_def occurs_ignoring_case_def decompose_def)
  with False show ?thesis by (simp add: flag_def)
qed

subsection \<open>Keyword flags of a meal\<close>

text \<open>
  C9. For every meal, \<open>has_dairy\<close>, \<open>has_gluten\<close> and \<open>has_spicy\<close> are 1 when some keyword
  of the respective fixed set occurs in the ingredients text as a substring, ignoring
  case, and 0 otherwise (also for a meal without ingredients text). A meal whose
  ingredients text is "Whole wheat flour, water, yeast" has \<open>has_gluten = 1\<close> and
  \<open>has_dairy = 0\<close>. The Unicode table is any table that keeps the lower-case mappings
  of the other code points outside ASCII.
\<close>

theorem keyword_flags:
  assumes "table_ok ucd"
  shows "has_dairy (meal_features ucd m) =
     flag (matches_any [''milk'', ''cheese'', ''yogurt'', ''butter'', ''cream'']
             (ingredients (food m)))
   \<and> has_gluten (meal_features ucd m) =
       flag (matches_any [''wheat'', ''flour'', ''bread'', ''pasta''] (ingredients (food m)))
   \<and> has_spicy (meal_features ucd m) =
       flag (matches_any [''pepper'', ''chili'', ''hot'', ''spicy''] (ingredients (food m)))
   \<and> (ingredients (food m) = Some (codepoints ''Whole wheat flour, water, yeast'') \<longrightarrow>
        has_gluten (meal_features ucd m) = 1 \<and> has_dairy (meal_features ucd m) = 0)"
proof -
  have d: "has_dairy (meal_features ucd m) =
      flag (matches_any [''milk'', ''cheese'', ''yogurt'', ''butter'', ''cream'']
              (ingredients (food m)))"
    by (simp only: meal_features_def Let_def dairy_words_def feature_row.select_convs
        any_in_matches[OF assms keywords_lower(1)])
  have g: "has_gluten (meal_features ucd m) =
      flag (matches_any [''wheat'', ''flour'', ''bread'', ''pasta''] (ingredients (food m)))"
    by (simp only: meal_features_def Let_def gluten_words_def feature_row.select_convs
        any_in_matches[OF assms keywords_lower(2)])
  have s: "has_spicy (meal_features ucd m) =
      flag (matches_any [''pepper'', ''chili'', ''hot'', ''spicy''] (ingredients (food m)))"
    by (simp only: meal_features_def Let_def spicy_words_def feature_row.select_convs
        any_in_matches[OF assms keywords_lower(3)])
  have sc: "has_gluten (meal_features ucd m) = 1 \<and> has_dairy (meal_features ucd m) = 0"
    if "ingredients (food m) = Some (codepoints ''Whole wheat flour, water, yeast'')"
  proof -
    have "any_in gluten_words (lower ucd (codepoints ''Whole wheat flour, water, yeast''))"
      by code_simp
    moreover have
      "\<not> any_in dairy_words (lower ucd (codepoints ''Whole wheat flour, water, yeast''))"
      by code_simp
    moreover have "codepoints ''Whole wheat flour, water, yeast'' \<noteq> []"
      by (simp add: codepoints_def)
    ultimately show ?thesis using that
      by (simp add: meal_features_def Let_def truthy_def text_of_def flag_def)
  qed
  show ?thesis using d g s sc by simp
qed

lemma plain_table_ok: "table_ok plain_table"
  by (auto simp: table_ok_def plain_table_def)

theorem keyword_flags_witness:
  "table_ok plain_table
   \<and> has_gluten (meal_features plain_table scenario_meal) = 1
   \<and> has_dairy (meal_features plain_table scenario_meal) = 0
   \<and> has_dairy (meal_features plain_table capitals_meal) = 1
   \<and> has_dairy (meal_features plain_table kelvin_meal) = 1"
proof -
  have c: "has_dairy (meal_features plain_table capitals_meal) = 1"
    by code_simp
  have k: "has_dairy (meal_features plain_table kelvin_meal) = 1"
    by code_simp
  show ?thesis
    using keyword_flags[OF plain_table_ok, of scenario_meal] plain_table_ok c k
    by (simp add: scenario_meal_def)
qed

subsection \<open>Prediction\<close>

lemma trained_engine_models:
  "is_trained trained_engine"
  "models trained_engine random_forest =
     Some \<lparr> model = (\<lambda>x. (1 / 4, 3 / 4)), accuracy = Some 1,
            model_type = ''Random Forest'' \<rparr>"
  "models trained_engine logistic_regression =
     Some \<lparr> model = (\<lambda>x. (1 / 2, 1 / 2)), accuracy = Some (1 / 2),
            model_type = ''Logistic Regression'' \<rparr>"
  by (simp_all add: trained_engine_def)

lemma trained_engine_scaled:
  "encode trained_engine spicy_row = Inr (Num 1 # numeric_cells spicy_row)"
  "scale_frame no_float (scaler trained_engine) (Num 1 # numeric_cells spicy_row)
     = Inr [1, 19, 4, 1, 2, 0, 1, 0, 0, 1, 0, 0, 20000]"
  by (simp_all add: trained_engine_def encode_def le_transform_def spicy_row_def
      numeric_cells_def str_def scale_frame_def unit_scaler_def scaler_transform_def
      standardize_def fsub_def fdiv_def round64_small round64_values)

text \<open>
  C3. While the trained flag is false, \<open>predict_symptoms\<close> returns (it does not raise) the
  fixed "Model not trained" result with confidence 0, whatever the feature vector is; its
  recommendation text is none of the texts of the recommendation rules.
\<close>

theorem untrained_prediction:
  assumes "\<not> is_trained e"
  shows "predict_symptoms np_float e f = Inr not_trained
         \<and> prediction not_trained = ''Model not trained''
         \<and> confidence not_trained = 0
         \<and> recommendation not_trained \<noteq> generate_recommendation f p c"
  using assms
  by (simp add: predict_symptoms_def not_trained_def generate_recommendation_def)

theorem untrained_prediction_witness:
  "\<not> is_trained new_engine
   \<and> predict_symptoms no_float new_engine spicy_row = Inr not_trained
   \<and> confidence not_trained = 0"
  using untrained_prediction[of new_engine no_float spicy_row]
  by (simp add: new_engine_def)

lemma predict_trained:
  assumes "is_trained e" "encode e f = Inr df" "scale_frame np_float (scaler e) df = Inr x"
    "models e random_forest = Some rf" "models e logistic_regression = Some lr"
  shows "predict_symptoms np_float e f =
     Inr \<lparr> prediction =
             (if likely (ensemble (model rf x) (model lr x))
              then ''Likely to cause symptoms'' else ''Unlikely to cause symptoms''),
           confidence = max_prob (ensemble (model rf x) (model lr x)),
           recommendation =
             generate_recommendation f
               (if likely (ensemble (model rf x) (model lr x)) then 1 else 0)
               (max_prob (ensemble (model rf x) (model lr x))),
           model_details = Some
             (\<lparr> sub_label = (if likely (model rf x) then ''Likely'' else ''Unlikely''),
                sub_confidence = max_prob (model rf x) \<rparr>,
              \<lparr> sub_label = (if likely (model lr x) then ''Likely'' else ''Unlikely''),
                sub_confidence = max_prob (model lr x) \<rparr>) \<rparr>"
  using assms by (simp add: predict_symptoms_def Let_def)

text \<open>
  C6, as the code has it. For a trained engine holding both classifiers and a feature
  vector that the encoder and the scaler accept, giving the scaled row \<open>x\<close>, where both
  classifiers answer with probabilities: the prediction is returned; its label is "Likely
  to cause symptoms" exactly when the float64 average of the two class-1 probabilities
  (their sum rounded to float64, then halved) exceeds one half, and "Unlikely to cause
  symptoms" otherwise; that is the case exactly when the exact sum of the two class-1
  probabilities exceeds \<open>1 + 1 / 2 ^ 53\<close>, so an exact average above one half by at
  most \<open>1 / 2 ^ 54\<close> is rounded down and gives "Unlikely". The confidence is the larger
  of the two float64 averages of the class probabilities.
\<close>

theorem ensemble_decision:
  assumes "is_trained e" "encode e f = Inr df" "scale_frame np_float (scaler e) df = Inr x"
    "models e random_forest = Some rf" "models e logistic_regression = Some lr"
    "probabilities (model rf x)" "probabilities (model lr x)"
  shows "\<exists>r. predict_symptoms np_float e f = Inr r
     \<and> (prediction r = ''Likely to cause symptoms''
          \<longleftrightarrow> 1 / 2 < fdiv (fadd (snd (model rf x)) (snd (model lr x))) 2)
     \<and> (prediction r = ''Likely to cause symptoms''
          \<longleftrightarrow> 1 + 1 / 2 ^ 53 < snd (model rf x) + snd (model lr x))
     \<and> (prediction r = ''Unlikely to cause symptoms''
          \<longleftrightarrow> \<not> 1 / 2 < fdiv (fadd (snd (model rf x)) (snd (model lr x))) 2)
     \<and> confidence r = max (fdiv (fadd (fst (model rf x)) (fst (model lr x))) 2)
                          (fdiv (fadd (snd (model rf x)) (snd (model lr x))) 2)"
proof -
  have "snd (model rf x) + snd (model lr x) \<le> 2"
    using assms(6,7) by (simp add: probabilities_def)
  then have gap: "1 / 2 < fdiv (fadd (snd (model rf x)) (snd (model lr x))) 2
      \<longleftrightarrow> 1 + 1 / 2 ^ 53 < snd (model rf x) + snd (model lr x)"
    unfolding fadd_def by (rule half_sum_gt_half_iff)
  show ?thesis
    unfolding predict_trained[OF assms(1-5)] gap[symmetric]
    by (simp add: likely_def ensemble_def max_prob_def)
qed

theorem ensemble_decision_witness:
  "is_trained trained_engine \<and> probabilities (1 / 4, 3 / 4) \<and> probabilities (1 / 2, 1 / 2) \<and>
   (\<exists>r. predict_symptoms no_float trained_engine spicy_row = Inr r
      \<and> prediction r = ''Likely to cause symptoms'' \<and> confidence r = 5 / 8)"
proof -
  have p: "probabilities (1 / 4, 3 / 4)" "probabilities (1 / 2, 1 / 2)"
    by (simp_all add: probabilities_def)
  have avg: "fdiv (fadd (1 / 4) (1 / 2)) 2 = 3 / 8" "fdiv (fadd (3 / 4) (1 / 2)) 2 = 5 / 8"
    by (simp_all add: fdiv_def fadd_def round64_values)
  show ?thesis
    using ensemble_decision[OF trained_engine_models(1) trained_engine_scaled
        trained_engine_models(2,3)]
      trained_engine_models(1) p
    by (auto simp: avg)
qed

text \<open>
  The claim C6 as stated fails: with the class-1 probabilities 0.5000000000000001 (one
  half plus \<open>1 / 2 ^ 53\<close>) and 0.5 the exact average exceeds one half, but the float64
  sum is rounded to 1, and the prediction is "Unlikely to cause symptoms" with
  confidence one half.
\<close>

theorem rounded_average_not_likely:
  "predict_symptoms no_float tie_engine spicy_row =
     Inr \<lparr> prediction = ''Unlikely to cause symptoms'', confidence = 1 / 2,
           recommendation = ''This food appears safe for you based on current data.'',
           model_details = Some
             (\<lparr> sub_label = ''Likely'', sub_confidence = 1 / 2 + 1 / 2 ^ 53 \<rparr>,
              \<lparr> sub_label = ''Unlikely'', sub_confidence = 1 / 2 \<rparr>) \<rparr>
   \<and> 1 / 2 < ((1 / 2 + 1 / 2 ^ 53) + 1 / 2) / (2 :: real)"
proof -
  have e: "encode tie_engine spicy_row = Inr (Num 1 # numeric_cells spicy_row)"
    "scale_frame no_float (scaler tie_engine) (Num 1 # numeric_cells spicy_row)
       = Inr [1, 19, 4, 1, 2, 0, 1, 0, 0, 1, 0, 0, 20000]"
    using trained_engine_scaled by (simp_all add: tie_engine_def encode_def)
  have m: "is_trained tie_engine"
    "models tie_engine random_forest =
       Some \<lparr> model = (\<lambda>x. (1 / 2 - 1 / 2 ^ 53, 1 / 2 + 1 / 2 ^ 53)), accuracy = Some 1,
              model_type = ''Random Forest'' \<rparr>"
    "models tie_engine logistic_regression =
       Some \<lparr> model = (\<lambda>x. (1 / 2, 1 / 2)), accuracy = Some (1 / 2),
              model_type = ''Logistic Regression'' \<rparr>"
    by (simp_all add: tie_engine_def trained_engine_def)
  have s1: "fadd (1 / 2 + 1 / 2 ^ 53) (1 / 2) = 1"
    using round64_tie(1) by (simp add: fadd_def)
  have s0: "fadd (1 / 2 - 1 / 2 ^ 53) (1 / 2) = 1 - 1 / 2 ^ 53"
    using round64_tie(2) by (simp add: fadd_def)
  have h1: "fdiv 1 2 = 1 / 2" by (simp add: fdiv_def round64_values)
  have h0: "fdiv (1 - 1 / 2 ^ 53) 2 = (1 - 1 / 2 ^ 53) / 2"
    using round64_tie(3) by (simp add: fdiv_def)
  have ens: "ensemble (1 / 2 - 1 / 2 ^ 53, 1 / 2 + 1 / 2 ^ 53) (1 / 2, 1 / 2)
               = ((1 - 1 / 2 ^ 53) / 2, 1 / 2)"
    unfolding ensemble_def fst_conv snd_conv s0 s1 h0 h1 by (rule refl)
  have "predict_symptoms no_float tie_engine spicy_row =
     Inr \<lparr> prediction = ''Unlikely to cause symptoms'', confidence = 1 / 2,
           recommendation = ''This food appears safe for you based on current data.'',
           model_details = Some
             (\<lparr> sub_label = ''Likely'', sub_confidence = 1 / 2 + 1 / 2 ^ 53 \<rparr>,
              \<lparr> sub_label = ''Unlikely'', sub_confidence = 1 / 2 \<rparr>) \<rparr>"
    unfolding predict_trained[OF m(1) e m(2,3)] model_info.select_convs ens
    by (simp add: likely_def max_prob_def generate_recommendation_def)
  then show ?thesis by simp
qed





lemma index_of_None: "v \<notin> set cs \<Longrightarrow> index_of v cs = None"
  by (induction cs) auto

text \<open>
  C2, as the code has it. A category text that is not among the classes of the fitted
  encoder makes \<open>predict_symptoms\<close> of a trained engine raise the encoder's \<open>ValueError\<close>:
  the exception leaves the method, no result dictionary is returned, and no code is
  assigned to the text.
\<close>

theorem unseen_category_raises:
  assumes "is_trained e" "label_encoders e = Some le"
    "str (food_category f) \<notin> set (classes le)"
  shows "predict_symptoms np_float e f = Inl unseen_labels"
proof -
  have "le_transform le (str (food_category f)) = Inl unseen_labels"
    using assms(3) by (simp add: le_transform_def index_of_None)
  then show ?thesis using assms(1,2) by (simp add: predict_symptoms_def encode_def)
qed

theorem unseen_category_raises_witness:
  "is_trained trained_engine
   \<and> str (food_category unnamed_row) \<notin> set [''dairy'', ''spicy'']
   \<and> predict_symptoms no_float trained_engine unnamed_row = Inl unseen_labels"
proof -
  have 1: "label_encoders trained_engine = Some (LabelEncoder [''dairy'', ''spicy''])"
    by (simp add: trained_engine_def)
  have 2: "str (food_category unnamed_row)
             \<notin> set (classes (LabelEncoder [''dairy'', ''spicy'']))"
    by (simp add: unnamed_row_def str_def)
  show ?thesis
    using unseen_category_raises[OF trained_engine_models(1) 1 2] 2 trained_engine_models(1)
    by simp
qed

text \<open>
  The claim C2 as stated fails: for the category "raw", which the encoder of
  \<open>trained_engine\<close> never saw, the outcome of \<open>predict_symptoms\<close> is the raised
  \<open>ValueError\<close>, not a returned result.
\<close>

theorem unseen_category_escapes:
  "label_encoders trained_engine = Some (LabelEncoder [''dairy'', ''spicy''])
   \<and> food_category raw_row = Some ''raw''
   \<and> predict_symptoms no_float trained_engine raw_row = Inl unseen_labels"
  by (simp add: predict_symptoms_def encode_def trained_engine_def raw_row_def spicy_row_def
      le_transform_def str_def)

subsection \<open>Training with a short history\<close>

lemma train_models_insufficient:
  "length rows < 10 \<Longrightarrow> train_models sk e d (Some rows) y = Inr (False, e, d)"
  "train_models sk e d None y = Inr (False, e, d)"
  "train_models sk e d X None = Inr (False, e, d)"
  by (auto simp: train_models_def split: option.splits)

text \<open>
  C1. \<open>train_models\<close> alone returns \<open>False\<close> on fewer than 10 rows and touches nothing
  (\<open>train_models_insufficient\<close>). A training request on a history of one meal, made on
  an engine that was trained on the categories dairy and spicy, also returns \<open>False\<close>
  and keeps the classifiers, the scaler, the trained flag and the directory, but the
  feature preparation has replaced the encoder table by one fitted on the one meal.
\<close>

theorem short_history_replaces_encoder:
  "train sk ucd trained_engine d [scenario_meal] [] =
     Inr (False, trained_engine\<lparr>label_encoders := Some (LabelEncoder [''gluten''])\<rparr>, d)
   \<and> label_encoders trained_engine = Some (LabelEncoder [''dairy'', ''spicy''])"
  by (simp add: train_def prepare_features_def le_fit_transform_def le_fit_def Let_def
      le_transform_def meal_features_def scenario_meal_def str_def train_models_def
      trained_engine_def)

subsection \<open>Saving and loading\<close>

lemma predict_symptoms_cong:
  assumes "is_trained a = is_trained b" "label_encoders a = label_encoders b"
    "scaler a = scaler b"
    "map_option model (models a random_forest) = map_option model (models b random_forest)"
    "map_option model (models a logistic_regression)
       = map_option model (models b logistic_regression)"
  shows "predict_symptoms np_float a f = predict_symptoms np_float b f"
proof -
  have enc: "encode a f = encode b f" using assms(2) by (simp add: encode_def)
  show ?thesis
    using assms(4,5)
    unfolding predict_symptoms_def enc assms(1) assms(3)
    by (auto simp: Let_def split: sum.splits option.splits)
qed

lemma load_after_save:
  assumes "is_trained e" "models e random_forest = Some rf"
    "models e logistic_regression = Some lr"
  shows "load_models e' (save_models e d) =
     (True, e'\<lparr> models := (models e')
                  (random_forest \<mapsto>
                     \<lparr> model = model rf, accuracy = None,
                       model_type = title random_forest \<rparr>,
                   logistic_regression \<mapsto>
                     \<lparr> model = model lr, accuracy = None,
                       model_type = title logistic_regression \<rparr>),
               scaler := scaler e, label_encoders := label_encoders e,
               is_trained := True \<rparr>)"
  using assms by (simp add: load_models_def save_models_def load_classifier_def)

text \<open>
  C5. For an engine that is trained and holds both classifiers (what \<open>save_models\<close>
  writes in full), saving it to any directory and loading that directory into any engine
  succeeds, and the loaded engine gives the same outcome of \<open>predict_symptoms\<close> as the
  saved one on every feature vector: the same label, confidence, recommendation and
  per-model details, or the same exception.
\<close>

theorem save_load_roundtrip:
  assumes "is_trained e" "models e random_forest = Some rf"
    "models e logistic_regression = Some lr"
  shows "fst (load_models e' (save_models e d)) = True
     \<and> predict_symptoms np_float (snd (load_models e' (save_models e d))) f
         = predict_symptoms np_float e f"
proof -
  have "predict_symptoms np_float (snd (load_models e' (save_models e d))) f
          = predict_symptoms np_float e f"
    unfolding load_after_save[OF assms]
    by (rule predict_symptoms_cong) (simp_all add: assms)
  then show ?thesis by (simp add: load_after_save[OF assms])
qed

theorem save_load_roundtrip_witness:
  "is_trained trained_engine
   \<and> fst (load_models new_engine (save_models trained_engine empty_dir)) = True
   \<and> predict_symptoms no_float
         (snd (load_models new_engine (save_models trained_engine empty_dir))) spicy_row
       = predict_symptoms no_float trained_engine spicy_row"
  using save_load_roundtrip[OF trained_engine_models, of new_engine empty_dir no_float spicy_row]
    trained_engine_models(1)
  by simp

lemma load_classifier_fields:
  "load_classifier name d e = Inr e1 \<Longrightarrow>
     is_trained e1 = is_trained e \<and> scaler e1 = scaler e
     \<and> label_encoders e1 = label_encoders e"
  by (auto simp: load_classifier_def split: option.splits pkl.splits)

lemma load_models_forest:
  assumes "model_files d random_forest = Some (Pickled m)"
  shows "map_option model (models (snd (load_models e d)) random_forest) = Some m"
proof -
  let ?e1 = "e\<lparr>models := (models e)(random_forest \<mapsto>
               \<lparr> model = m, accuracy = None, model_type = title random_forest \<rparr>)\<rparr>"
  have 1: "load_classifier random_forest d e = Inr ?e1"
    using assms by (simp add: load_classifier_def)
  have 2: "map_option model (models e2 random_forest) = Some m"
    if "load_classifier logistic_regression d ?e1 = Inr e2" for e2
    using that by (auto simp: load_classifier_def split: option.splits pkl.splits)
  show ?thesis
    using 2 by (auto simp: load_models_def 1 split: sum.splits option.splits pkl.splits)
qed

lemma load_models_logistic:
  assumes "model_files d logistic_regression = Some (Pickled m)"
    "model_files d random_forest \<noteq> Some Unreadable"
  shows "map_option model (models (snd (load_models e d)) logistic_regression) = Some m"
proof -
  have "\<exists>e1. load_classifier random_forest d e = Inr e1"
  proof (cases "model_files d random_forest")
    case None
    then show ?thesis by (simp add: load_classifier_def)
  next
    case (Some art)
    then show ?thesis using assms(2) by (cases art) (simp_all add: load_classifier_def)
  qed
  then obtain e1 where 1: "load_classifier random_forest d e = Inr e1" by blast
  let ?e2 = "e1\<lparr>models := (models e1)(logistic_regression \<mapsto>
               \<lparr> model = m, accuracy = None, model_type = title logistic_regression \<rparr>)\<rparr>"
  have 2: "load_classifier logistic_regression d e1 = Inr ?e2"
    using assms(1) by (simp add: load_classifier_def)
  show ?thesis
    by (auto simp: load_models_def 1 2 split: option.splits pkl.splits)
qed

lemma load_models_forest_unreadable:
  assumes "model_files d random_forest = Some Unreadable"
  shows "load_models e d = (False, e)"
  using assms by (simp add: load_models_def load_classifier_def)

text \<open>
  C4, as the code has it. \<open>load_models\<close> never raises (it is a total function into
  \<open>bool \<times> engine\<close>: its body's exceptions are caught). When the scaler artifact or
  the encoder-table artifact is absent, it returns \<open>False\<close> and leaves the trained flag,
  the scaler and the encoder table as they were, so an untrained engine stays untrained.
  The classifier artifacts are loaded one by one all the same, the random forest first:
  a readable random-forest artifact is installed in \<open>models\<close>; a readable
  logistic-regression artifact is installed unless the random-forest artifact exists and
  cannot be read, which ends the load with the engine as it was.
\<close>

theorem load_without_scaler_or_encoders:
  assumes "scaler_file d = None \<or> encoders_file d = None"
  shows "fst (load_models e d) = False
     \<and> is_trained (snd (load_models e d)) = is_trained e
     \<and> scaler (snd (load_models e d)) = scaler e
     \<and> label_encoders (snd (load_models e d)) = label_encoders e
     \<and> (\<forall>m. model_files d random_forest = Some (Pickled m) \<longrightarrow>
            map_option model (models (snd (load_models e d)) random_forest) = Some m)
     \<and> (\<forall>m. model_files d logistic_regression = Some (Pickled m)
              \<and> model_files d random_forest \<noteq> Some Unreadable \<longrightarrow>
            map_option model (models (snd (load_models e d)) logistic_regression) = Some m)
     \<and> (model_files d random_forest = Some Unreadable \<longrightarrow> snd (load_models e d) = e)"
proof -
  have main: "fst (load_models e d) = False
     \<and> is_trained (snd (load_models e d)) = is_trained e
     \<and> scaler (snd (load_models e d)) = scaler e
     \<and> label_encoders (snd (load_models e d)) = label_encoders e"
  proof (cases "load_classifier random_forest d e")
    case (Inl err)
    then show ?thesis by (simp add: load_models_def)
  next
    case (Inr e1)
    note f1 = load_classifier_fields[OF Inr]
    show ?thesis
    proof (cases "load_classifier logistic_regression d e1")
      case (Inl err)
      then show ?thesis using Inr f1 by (simp add: load_models_def)
    next
      case e2: (Inr e2)
      note f2 = load_classifier_fields[OF e2]
      show ?thesis using assms Inr e2 f1 f2
        by (auto simp: load_models_def split: option.splits)
    qed
  qed
  have unreadable: "snd (load_models e d) = e"
    if "model_files d random_forest = Some Unreadable"
    using load_models_forest_unreadable[OF that] by simp
  show ?thesis
    using main load_models_forest load_models_logistic unreadable by blast
qed

theorem load_without_scaler_or_encoders_witness:
  "scaler_file forest_only_dir = None
   \<and> fst (load_models new_engine forest_only_dir) = False
   \<and> is_trained (snd (load_models new_engine forest_only_dir)) = False"
  using load_without_scaler_or_encoders[of forest_only_dir new_engine]
  by (simp add: forest_only_dir_def empty_dir_def new_engine_def)

text \<open>
  The claim C4 as stated fails: from a directory that holds the random-forest artifact
  and nothing else, loading into a new engine returns \<open>False\<close> and leaves the engine
  untrained, yet \<open>models\<close> then holds the random forest and no logistic regression.
\<close>

theorem load_installs_lone_classifier:
  "fst (load_models new_engine forest_only_dir) = False
   \<and> \<not> is_trained (snd (load_models new_engine forest_only_dir))
   \<and> models (snd (load_models new_engine forest_only_dir)) random_forest \<noteq> None
   \<and> models (snd (load_models new_engine forest_only_dir)) logistic_regression = None"
  by (simp add: load_models_def load_classifier_def forest_only_dir_def empty_dir_def
      new_engine_def)

subsection \<open>The category encoder\<close>

lemma index_of_sorted:
  "sorted xs \<Longrightarrow> distinct xs \<Longrightarrow> v \<in> set xs
     \<Longrightarrow> index_of v xs = Some (card {u \<in> set xs. u < v})"
proof (induction xs)
  case Nil
  then show ?case by simp
next
  case (Cons c cs)
  have lt: "c < u" if "u \<in> set cs" for u
    using Cons.prems(1,2) that by (auto simp: less_le)
  show ?case
  proof (cases "v = c")
    case True
    have "{u \<in> set (c # cs). u < c} = {}" using lt by (auto simp: less_le_not_le)
    then show ?thesis using True by simp
  next
    case False
    then have v: "v \<in> set cs" using Cons.prems(3) by simp
    have "{u \<in> set (c # cs). u < v} = insert c {u \<in> set cs. u < v}"
      using lt[OF v] by auto
    moreover have "c \<notin> {u \<in> set cs. u < v}" using Cons.prems(2) by simp
    ultimately have "card {u \<in> set (c # cs). u < v} = Suc (card {u \<in> set cs. u < v})"
      by simp
    moreover have "index_of v cs = Some (card {u \<in> set cs. u < v})"
      using Cons.IH Cons.prems v by simp
    ultimately show ?thesis using False by simp
  qed
qed

lemma le_transform_fit:
  assumes "v \<in> set ys"
  shows "le_transform (le_fit ys) v = Inr (rank ys v)"
  using index_of_sorted[of "sort (remdups ys)" v] assms
  by (simp add: le_transform_def le_fit_def rank_def)

lemma le_transform_column_fit:
  assumes "set vs \<subseteq> set ys"
  shows "le_transform_column (le_fit ys) vs = Inr (map (rank ys) vs)"
  using assms by (induction vs) (simp_all add: le_transform_fit)

lemma rank_inj:
  assumes "u \<in> set ys" "v \<in> set ys" "rank ys u = rank ys v"
  shows "u = v"
proof (rule ccontr)
  assume "u \<noteq> v"
  then consider "u < v" | "v < u" by (auto simp: neq_iff)
  then show False
  proof cases
    case 1
    have "{w \<in> set ys. w < u} \<subset> {w \<in> set ys. w < v}" using 1 assms(1) by auto
    then have "rank ys u < rank ys v"
      unfolding rank_def by (intro psubset_card_mono) auto
    then show False using assms(3) by simp
  next
    case 2
    have "{w \<in> set ys. w < v} \<subset> {w \<in> set ys. w < u}" using 2 assms(2) by auto
    then have "rank ys v < rank ys u"
      unfolding rank_def by (intro psubset_card_mono) auto
    then show False using assms(3) by simp
  qed
qed

lemma rank_less:
  assumes "v \<in> set ys"
  shows "rank ys v < card (set ys)"
  unfolding rank_def using assms by (intro psubset_card_mono) auto

lemma food_category_with_category: "food_category (with_category r c) = c"
  by (simp add: with_category_def)

lemma map_zip_with_category:
  "length rs = length ks
     \<Longrightarrow> map food_category (map (\<lambda>(r, k). with_category r k) (zip rs ks)) = ks"
  by (induction rs ks rule: list_induct2) (simp_all add: food_category_with_category)

text \<open>
  C7, as the code has it. On a non-empty meal list, \<open>prepare_features\<close> stores the
  encoder fitted on the column of category texts and returns the rows with the category
  replaced by its code. The code of a value is its rank among the distinct values of the
  column in sorted order (the number of distinct values below it), not its position in
  first-seen order; the codes of distinct values differ and are below the number of
  distinct values; and \<open>transform\<close> of the stored encoder gives a value of the column
  exactly the code it got at fit time.
\<close>

theorem category_codes_sorted:
  assumes "meals_data \<noteq> []" and "cats = map (\<lambda>m. str (category (food m))) meals_data"
  shows "\<exists>X y. prepare_features ucd e meals_data symptoms_data =
             Inr (e\<lparr>label_encoders := Some (le_fit cats)\<rparr>, Some (X, y))
           \<and> map food_category X = map (rank cats) cats
           \<and> (\<forall>v \<in> set cats. le_transform (le_fit cats) v = Inr (rank cats v)
                \<and> rank cats v < card (set cats)
                \<and> (\<forall>u \<in> set cats. rank cats u = rank cats v \<longrightarrow> u = v))"
proof -
  let ?rows = "map (meal_features ucd) meals_data"
  have c: "map (str \<circ> food_category) ?rows = cats"
    by (simp add: assms(2) meal_features_def Let_def)
  have col: "le_transform_column (le_fit cats) cats = Inr (map (rank cats) cats)"
    by (rule le_transform_column_fit) simp
  have "prepare_features ucd e meals_data symptoms_data =
      Inr (e\<lparr>label_encoders := Some (le_fit cats)\<rparr>,
           Some (map (\<lambda>(r, k). with_category r k) (zip ?rows (map (rank cats) cats)),
                 map (caused_symptoms symptoms_data) meals_data))"
    using assms(1) unfolding prepare_features_def le_fit_transform_def Let_def c col
    by simp
  moreover have
    "map food_category (map (\<lambda>(r, k). with_category r k) (zip ?rows (map (rank cats) cats)))
       = map (rank cats) cats"
    by (rule map_zip_with_category) (simp add: assms(2))
  ultimately show ?thesis
    using le_transform_fit rank_less rank_inj by blast
qed

theorem category_codes_sorted_witness:
  "\<exists>X y. prepare_features plain_table new_engine [spicy_meal, dairy_meal, spicy_meal] [] =
      Inr (new_engine\<lparr>label_encoders := Some (LabelEncoder [''dairy'', ''spicy''])\<rparr>,
           Some (X, y))
    \<and> map food_category X = [1, 0, 1]"
proof -
  let ?cats = "[''spicy'', ''dairy'', ''spicy'']"
  have 1: "[spicy_meal, dairy_meal, spicy_meal] \<noteq> []" by simp
  have 2: "?cats = map (\<lambda>m. str (category (food m))) [spicy_meal, dairy_meal, spicy_meal]"
    by (simp add: spicy_meal_def dairy_meal_def str_def)
  have 3: "le_fit ?cats = LabelEncoder [''dairy'', ''spicy'']"
    by code_simp
  have 4: "map (rank ?cats) ?cats = [1, 0, 1]"
  proof -
    have "le_transform_column (le_fit ?cats) ?cats = Inr [1, 0, 1]"
      by code_simp
    then show ?thesis
      using le_transform_column_fit[of ?cats ?cats] by simp
  qed
  show ?thesis
    using category_codes_sorted[OF 1 2, of plain_table new_engine "[]"] unfolding 3 4
    by (elim exE conjE) (intro exI conjI, assumption+)
qed

text \<open>
  The claim C7 as stated fails: in the column spicy, dairy, spicy the first value seen is
  "spicy", which first-seen order would number 0; the encoder gives it the code 1.
\<close>

theorem codes_not_first_seen:
  "snd (le_fit_transform [''spicy'', ''dairy'', ''spicy'']) = Inr [1, 0, 1]
   \<and> index_of ''spicy'' (first_seen [''spicy'', ''dairy'', ''spicy'']) = Some 0"
  by code_simp

subsection \<open>The scaler on a constant column\<close>

lemma standardize_nth:
  assumes "j < length x" "length x = length ms" "length ms = length ss"
  shows "standardize ms ss x ! j = fdiv (fsub (x ! j) (ms ! j)) (ss ! j)"
  using assms by (simp add: standardize_def)

text \<open>
  C8, as the code has it. For a column \<open>j\<close> whose variance over the training matrix, as
  the scaler's fit computes it, is zero, the fitted scale is 1, so \<open>transform\<close> divides
  by 1 (there is no division by zero), and its output in that column is the float64
  difference between the input and the fitted mean, divided by 1: not 0 in general.
\<close>

theorem constant_column_unscaled:
  assumes "scaler_fit sk X = Inr s" "j < length (transpose X)"
    "fitted_var sk (transpose X ! j) = 0" "scaler_transform s x = Inr z"
  shows "scales s ! j = 1 \<and> j < length z
       \<and> z ! j = fdiv (fsub (x ! j) (means s ! j)) 1"
proof -
  have s: "s = Fitted (map (fitted_mean sk) (transpose X))
                      (map (column_scale sk) (transpose X))"
    using assms(1) by (auto simp: scaler_fit_def split: if_splits)
  have sc: "scales s ! j = 1" using assms(2,3) by (simp add: s column_scale_def)
  have len: "length x = length (transpose X)"
    and z: "z = standardize (means s) (scales s) x"
    using assms(4) by (auto simp: scaler_transform_def s split: if_splits)
  have "z ! j = fdiv (fsub (x ! j) (means s ! j)) (scales s ! j)"
    unfolding z using assms(2) len by (intro standardize_nth) (simp_all add: s)
  moreover have "length z = length x"
    unfolding z by (simp add: standardize_def s len)
  ultimately show ?thesis using sc len assms(2) by simp
qed

lemma constant_column_fit:
  "scaler_fit five_stats [[5], [5]] = Inr (Fitted [5] [1])"
  "0 < length (transpose [[5], [5 :: real]])"
  "fitted_var five_stats (transpose [[5], [5]] ! 0) = 0"
  "scaler_transform (Fitted [5] [1]) [7] = Inr [2]"
proof -
  have t: "transpose [[5], [5 :: real]] = [[5, 5]]"
    by (simp add: transpose.simps)
  show "scaler_fit five_stats [[5], [5]] = Inr (Fitted [5] [1])"
    unfolding scaler_fit_def t by (simp add: five_stats_def column_scale_def)
  show "0 < length (transpose [[5], [5 :: real]])"
    unfolding t by simp
  show "fitted_var five_stats (transpose [[5], [5]] ! 0) = 0"
    by (simp add: five_stats_def)
  show "scaler_transform (Fitted [5] [1]) [7] = Inr [2]"
    by (simp add: scaler_transform_def standardize_def fsub_def fdiv_def round64_small)
qed

theorem constant_column_unscaled_witness:
  "fitted_var five_stats (transpose [[5], [5]] ! 0) = 0
   \<and> scales (Fitted [5] [1]) ! 0 = 1
   \<and> [2] ! 0 = fdiv (fsub ([7] ! 0) (means (Fitted [5] [1]) ! 0)) 1"
  using constant_column_unscaled[OF constant_column_fit] constant_column_fit(3)
  by simp

text \<open>
  The claim C8 as stated fails: the training column is constantly 5 (variance zero), and
  the transform of the value 7 is 2 in that column, not 0.
\<close>

theorem constant_column_output_nonzero:
  "scaler_fit five_stats [[5], [5]] = Inr (Fitted [5] [1])
   \<and> fitted_var five_stats [5, 5] = 0
   \<and> scaler_transform (Fitted [5] [1]) [7] = Inr [2]"
  using constant_column_fit(1,4) by (simp add: five_stats_def)

end
